theory Spec2Isabelle
  imports Complex_Main "HOL-Library.AList"
begin

section \<open>Python strings and integers\<close>

text \<open>
  The parser of \<^verbatim>\<open>scripts/gocad_vessel.py\<close> works on Python \<^verbatim>\<open>str\<close> values. They are
  modelled as \<^typ>\<open>string\<close>; the input is taken to be ASCII, so that a character is a byte.
  The string methods below are the ones \<^verbatim>\<open>process_gocad\<close> and its helpers call.
\<close>

definition is_space :: "char \<Rightarrow> bool" where
  \<comment> \<open>the ASCII characters \<^verbatim>\<open>str.isspace\<close> accepts: tab, LF, VT, FF, CR, FS, GS, RS, US, space\<close>
  "is_space c = (c \<in> set [CHR 0x20, CHR 0x09, CHR 0x0A, CHR 0x0B, CHR 0x0C, CHR 0x0D,
                            CHR 0x1C, CHR 0x1D, CHR 0x1E, CHR 0x1F])"

definition upper_char :: "char \<Rightarrow> char" where
  "upper_char c =
     (case map_of (zip ''abcdefghijklmnopqrstuvwxyz'' ''ABCDEFGHIJKLMNOPQRSTUVWXYZ'') c of
        Some u \<Rightarrow> u
      | None \<Rightarrow> c)"

definition py_upper :: "string \<Rightarrow> string" where
  "py_upper s = map upper_char s"

definition py_lstrip :: "(char \<Rightarrow> bool) \<Rightarrow> string \<Rightarrow> string" where
  "py_lstrip p s = dropWhile p s"

definition py_rstrip :: "(char \<Rightarrow> bool) \<Rightarrow> string \<Rightarrow> string" where
  "py_rstrip p s = rev (dropWhile p (rev s))"

definition py_strip :: "(char \<Rightarrow> bool) \<Rightarrow> string \<Rightarrow> string" where
  "py_strip p s = py_lstrip p (py_rstrip p s)"

definition one_of :: "string \<Rightarrow> char \<Rightarrow> bool" where
  \<comment> \<open>the character set argument of \<^verbatim>\<open>s.strip(chars)\<close>\<close>
  "one_of cs c = (c \<in> set cs)"

fun py_partition :: "char \<Rightarrow> string \<Rightarrow> string \<times> string \<times> string" where
  \<comment> \<open>\<^verbatim>\<open>s.partition(sep)\<close> for a one-character separator\<close>
  "py_partition sep [] = ([], [], [])"
| "py_partition sep (c # cs) =
     (if c = sep then ([], [sep], cs)
      else (case py_partition sep cs of (b, m, a) \<Rightarrow> (c # b, m, a)))"

fun split_at :: "(char \<Rightarrow> bool) \<Rightarrow> string \<Rightarrow> string list" where
  \<comment> \<open>cuts at every separator character and keeps the empty pieces\<close>
  "split_at p [] = [[]]"
| "split_at p (c # cs) =
     (if p c then [] # split_at p cs
      else (case split_at p cs of
              w # ws \<Rightarrow> (c # w) # ws
            | [] \<Rightarrow> [[c]]))"

definition py_split :: "string \<Rightarrow> string list" where
  \<comment> \<open>\<^verbatim>\<open>s.split()\<close>: the maximal runs of non-whitespace\<close>
  "py_split s = filter (\<lambda>w. w \<noteq> []) (split_at is_space s)"

definition py_split_on :: "char \<Rightarrow> string \<Rightarrow> string list" where
  \<comment> \<open>\<^verbatim>\<open>s.split(sep)\<close> for a one-character separator\<close>
  "py_split_on sep s = split_at (\<lambda>c. c = sep) s"

definition py_replace :: "char \<Rightarrow> char \<Rightarrow> string \<Rightarrow> string" where
  "py_replace a b s = map (\<lambda>c. if c = a then b else c) s"

definition py_slice :: "nat \<Rightarrow> nat \<Rightarrow> string \<Rightarrow> string" where
  \<comment> \<open>\<^verbatim>\<open>s[i:j]\<close> for \<open>0 \<le> i \<le> j\<close>\<close>
  "py_slice i j s = take (j - i) (drop i s)"

fun nth_opt :: "'a list \<Rightarrow> nat \<Rightarrow> 'a option" where
  \<comment> \<open>\<^verbatim>\<open>xs[i]\<close> for \<open>i \<ge> 0\<close>; \<open>None\<close> stands for \<^verbatim>\<open>IndexError\<close>\<close>
  "nth_opt [] i = None"
| "nth_opt (x # xs) 0 = Some x"
| "nth_opt (x # xs) (Suc i) = nth_opt xs i"

definition digit_of :: "char \<Rightarrow> int option" where
  "digit_of c =
     (let n = (of_char c :: int) in
      if 48 \<le> n \<and> n \<le> 57 then Some (n - 48)
      else if 97 \<le> n \<and> n \<le> 122 then Some (n - 87)
      else if 65 \<le> n \<and> n \<le> 90 then Some (n - 55)
      else None)"

fun digits_val :: "int \<Rightarrow> int \<Rightarrow> string \<Rightarrow> int option" where
  \<comment> \<open>the digits after the first one; a single underscore may stand between two digits\<close>
  "digits_val b acc [] = Some acc"
| "digits_val b acc (c # cs) =
     (if c = CHR ''_'' then
        (case cs of
           [] \<Rightarrow> None
         | d # ds \<Rightarrow>
            (case digit_of d of
               Some v \<Rightarrow> if v < b then digits_val b (acc * b + v) ds else None
             | None \<Rightarrow> None))
      else
        (case digit_of c of
           Some v \<Rightarrow> if v < b then digits_val b (acc * b + v) cs else None
         | None \<Rightarrow> None))"

definition py_digits :: "int \<Rightarrow> string \<Rightarrow> int option" where
  "py_digits b s =
     (case s of
        [] \<Rightarrow> None
      | c # cs \<Rightarrow>
         (case digit_of c of
            Some v \<Rightarrow> if v < b then digits_val b v cs else None
          | None \<Rightarrow> None))"

definition py_int_base :: "int \<Rightarrow> string \<Rightarrow> int option" where
  \<comment> \<open>\<^verbatim>\<open>int(s, b)\<close> for \<open>b\<close> 10 or 16; \<open>None\<close> stands for \<^verbatim>\<open>ValueError\<close>\<close>
  "py_int_base b s =
     (let t = py_strip is_space s;
          neg = (take 1 t = ''-'');
          u = (if take 1 t = ''-'' \<or> take 1 t = ''+'' then drop 1 t else t);
          w = (if b = 16 \<and> (take 2 u = ''0x'' \<or> take 2 u = ''0X'')
               then (if take 1 (drop 2 u) = ''_'' then drop 3 u else drop 2 u)
               else u)
      in case py_digits b w of
           None \<Rightarrow> None
         | Some n \<Rightarrow> Some (if neg then - n else n))"

definition py_int :: "string \<Rightarrow> int option" where
  \<comment> \<open>\<^verbatim>\<open>int(s)\<close>\<close>
  "py_int s = py_int_base 10 s"

fun str_nat :: "nat \<Rightarrow> string" where
  "str_nat n =
     (if n < 10 then [char_of (48 + n)]
      else str_nat (n div 10) @ [char_of (48 + n mod 10)])"

definition py_str :: "int \<Rightarrow> string" where
  \<comment> \<open>\<^verbatim>\<open>str(n)\<close> for an integer\<close>
  "py_str n = (if n < 0 then CHR ''-'' # str_nat (nat (- n)) else str_nat (nat n))"

fun bin_digits :: "nat \<Rightarrow> string" where
  "bin_digits n =
     (if n < 2 then [char_of (48 + n)]
      else bin_digits (n div 2) @ [char_of (48 + n mod 2)])"

definition format_08b :: "nat \<Rightarrow> string" where
  \<comment> \<open>\<^verbatim>\<open>'{0:08b}'.format(n)\<close>: binary, padded with zeros to eight digits\<close>
  "format_08b n = (let d = bin_digits n in replicate (8 - length d) (CHR ''0'') @ d)"

function dequote :: "string \<Rightarrow> string" where
  \<comment> \<open>the loop on double-quoted strings at the head of \<^verbatim>\<open>process_gocad\<close>'s loop body\<close>
  "dequote line_str =
     (if 2 \<le> count_list line_str (CHR 0x22) then
        (case py_partition (CHR 0x22) line_str of
           (b0, b1, b2) \<Rightarrow>
             (case py_partition (CHR 0x22) b2 of
                (a0, a1, a2) \<Rightarrow>
                  dequote (b0 @ '' '' @ py_replace (CHR '' '') (CHR ''_'') (py_strip (one_of '' '') a0)
                              @ '' '' @ a2)))
      else line_str)"
  by pat_completeness auto

termination dequote
proof (relation "measure (\<lambda>s. count_list s (CHR 0x22))")
  show "wf (measure (\<lambda>s. count_list s (CHR 0x22)))" by simp
next
  fix line_str :: string and x b0 y b1 b2 xa a0 ya a1 a2
  assume two: "2 \<le> count_list line_str (CHR 0x22)"
    and p1: "(b0, x) = py_partition (CHR 0x22) line_str" "(b1, b2) = x"
    and p2: "(a0, y) = py_partition (CHR 0x22) b2" "(a1, a2) = y"
  have part: "\<And>s b m a. py_partition (CHR 0x22) s = (b, m, a) \<Longrightarrow>
      count_list b (CHR 0x22) = 0 \<and> count_list s (CHR 0x22) = length m + count_list a (CHR 0x22)
        \<and> (m = [] \<and> a = [] \<or> length m = 1)"
  proof -
    fix s :: string and b m a
    show "py_partition (CHR 0x22) s = (b, m, a) \<Longrightarrow>
      count_list b (CHR 0x22) = 0 \<and> count_list s (CHR 0x22) = length m + count_list a (CHR 0x22)
        \<and> (m = [] \<and> a = [] \<or> length m = 1)"
      by (induction s arbitrary: b m a) (auto split: if_splits prod.splits)
  qed
  have strip0: "\<And>s. count_list s (CHR 0x22) = 0 \<Longrightarrow>
      count_list (py_replace (CHR '' '') (CHR ''_'') (py_strip (one_of '' '') s)) (CHR 0x22) = 0"
  proof -
    fix s :: string
    assume "count_list s (CHR 0x22) = 0"
    then have "CHR 0x22 \<notin> set s" by (simp add: count_list_0_iff)
    moreover have "set (py_strip (one_of '' '') s) \<subseteq> set s"
      unfolding py_strip_def py_lstrip_def py_rstrip_def
      by (auto dest!: set_dropWhileD)
    ultimately have "CHR 0x22 \<notin> set (py_replace (CHR '' '') (CHR ''_'') (py_strip (one_of '' '') s))"
      by (auto simp: py_replace_def)
    then show "count_list (py_replace (CHR '' '') (CHR ''_'') (py_strip (one_of '' '') s)) (CHR 0x22) = 0"
      by (simp add: count_list_0_iff)
  qed
  from p1 have e1: "py_partition (CHR 0x22) line_str = (b0, b1, b2)" by simp
  from p2 have e2: "py_partition (CHR 0x22) b2 = (a0, a1, a2)" by simp
  from part[OF e1] part[OF e2] two
  have a0z: "count_list a0 (CHR 0x22) = 0" and b0z: "count_list b0 (CHR 0x22) = 0"
    and lt: "count_list a2 (CHR 0x22) < count_list line_str (CHR 0x22)"
    by auto
  show "(b0 @ '' '' @ py_replace (CHR '' '') (CHR ''_'') (py_strip (one_of '' '') a0) @ '' '' @ a2, line_str)
        \<in> measure (\<lambda>s. count_list s (CHR 0x22))"
    using strip0[OF a0z] b0z lt by simp
qed

declare dequote.simps [simp del]

declare str_nat.simps [simp del]
declare bin_digits.simps [simp del]

section \<open>The runtime the parser runs on\<close>

text \<open>
  Python floats are not modelled bit by bit: the float type is a type parameter \<open>'f\<close> and
  the operations the parser applies to floats are the fields of a record, together with the
  operating-system and numpy calls it makes. Every theorem below holds for every such runtime.
\<close>

datatype py_exc = ValueError | IndexError | KeyError | TypeError | AttributeError | IOError

record 'f runtime =
  py_float :: "string \<Rightarrow> 'f option"
  float_info_max :: 'f
  fl_of_int :: "int \<Rightarrow> 'f"
  fl_neg :: "'f \<Rightarrow> 'f"
  fl_add :: "'f \<Rightarrow> 'f \<Rightarrow> 'f"
  fl_mul :: "'f \<Rightarrow> 'f \<Rightarrow> 'f"
  fl_div :: "'f \<Rightarrow> 'f \<Rightarrow> 'f"
  fl_eq :: "'f \<Rightarrow> 'f \<Rightarrow> bool"
  fl_less :: "'f \<Rightarrow> 'f \<Rightarrow> bool"
  path_splitext :: "string \<Rightarrow> string \<times> string"
  path_basename :: "string \<Rightarrow> string"
  path_join :: "string \<Rightarrow> string \<Rightarrow> string"
  file_bytes :: "string \<Rightarrow> nat list option"
  np_dtype_ok :: "string \<Rightarrow> bool"
  np_fromfile :: "string \<Rightarrow> nat list \<Rightarrow> py_exc + 'f list"

text \<open>
  \<^item> \<open>py_float\<close> is \<^verbatim>\<open>float(s)\<close> on a string, \<open>None\<close> standing for \<^verbatim>\<open>ValueError\<close>;
  \<^item> \<open>float_info_max\<close> is \<^verbatim>\<open>sys.float_info.max\<close>, the largest finite float;
  \<^item> \<open>fl_of_int\<close> is \<^verbatim>\<open>float(n)\<close>, and gives the float literals \<^verbatim>\<open>0.0\<close>, \<^verbatim>\<open>1.0\<close>,
    \<^verbatim>\<open>255.0\<close> and \<^verbatim>\<open>1000.0\<close>;
  \<^item> \<open>fl_neg\<close>, \<open>fl_add\<close>, \<open>fl_mul\<close>, \<open>fl_div\<close>, \<open>fl_eq\<close>, \<open>fl_less\<close> are the float
    operations \<^verbatim>\<open>-x\<close>, \<^verbatim>\<open>x + y\<close>, \<^verbatim>\<open>x * y\<close>, \<^verbatim>\<open>x / y\<close>, \<^verbatim>\<open>x == y\<close>, \<^verbatim>\<open>x < y\<close>;
  \<^item> \<open>path_splitext\<close>, \<open>path_basename\<close>, \<open>path_join\<close> are the functions of \<^verbatim>\<open>os.path\<close>;
  \<^item> \<open>file_bytes\<close> gives the bytes of the regular file at a path, \<open>None\<close> when there is
    none: \<^verbatim>\<open>os.path.isfile\<close> and \<^verbatim>\<open>os.path.getsize\<close> read it;
  \<^item> \<open>np_dtype_ok\<close> tells whether \<^verbatim>\<open>numpy.dtype\<close> accepts a dtype string;
  \<^item> \<open>np_fromfile\<close> is \<^verbatim>\<open>numpy.fromfile\<close> with a dtype string on the file's bytes, each
    element read through \<^verbatim>\<open>float\<close>; \<open>Inl\<close> is the exception raised.
\<close>

datatype event = LogDebug nat | LogInfo nat | LogWarning nat | LogError nat | Printed nat

text \<open>
  An event is a record handed to the logger's handler, or a \<^verbatim>\<open>print\<close>; its number is the
  line of \<^verbatim>\<open>gocad_vessel.py\<close> that makes the call.
\<close>

record config =
  STOP_ON_EXC :: bool
  log_level :: nat
  nondefault_coords :: bool

text \<open>
  The arguments of the constructor that the parser reads; \<open>log_level\<close> is what
  \<^verbatim>\<open>logger.getEffectiveLevel()\<close> returns: DEBUG is 10, INFO 20, WARNING 30, ERROR 40.
\<close>

datatype ('a, 's) res = Ok 'a 's | SysExit 's | Raised py_exc 's

text \<open>
  A call returns a value, or ends the process by \<^verbatim>\<open>sys.exit(1)\<close>, or raises an
  exception; each with the state reached. An exception that no caller catches ends
  \<^verbatim>\<open>process_gocad\<close> with \<open>Raised\<close>.
\<close>

fun bind_res :: "('a, 's) res \<Rightarrow> ('a \<Rightarrow> 's \<Rightarrow> ('b, 's) res) \<Rightarrow> ('b, 's) res" where
  "bind_res (Ok a s) f = f a s"
| "bind_res (SysExit s) f = SysExit s"
| "bind_res (Raised e s) f = Raised e s"

section \<open>The data model\<close>

datatype 'f VRTX = VRTX (vrtx_n: int) (vrtx_xyz: "'f \<times> 'f \<times> 'f")
datatype ATOM = ATOM (atom_n: int) (atom_v: int)
datatype TRGL = TRGL int "int \<times> int \<times> int"
datatype SEG = SEG int "int \<times> int"

datatype 'f pval = Scalar 'f | Vec3 'f 'f 'f

type_synonym 'f coord = "nat \<times> ('f \<times> 'f \<times> 'f)"

text \<open>
  A coordinate tuple used as a dict key: the position \<open>(x, y, z)\<close>, and the index in
  \<^verbatim>\<open>_vrtx_arr\<close> of the vertex whose three float objects the tuple holds. Every key of a
  point property comes from a vertex of \<^verbatim>\<open>_vrtx_arr\<close>, and every vertex holds float objects
  of its own, so two keys hold the same objects exactly when their indices are equal.
\<close>

datatype 'f prop_data =
    PointData "('f coord \<times> 'f pval) list"
  | VoxelData "int \<times> int \<times> int" "((nat \<times> nat \<times> nat) \<times> 'f) list"

text \<open>
  \<^verbatim>\<open>PROPS.data\<close> is a dict keyed by coordinate, kept in insertion order, or a 3d numpy array:
  its shape and the cells assigned since \<^verbatim>\<open>numpy.zeros\<close> made it, every other cell
  holding \<^verbatim>\<open>0.0\<close>.
\<close>

record 'f PROPS =
  file_name :: string
  data_sz :: int
  data_type :: string
  signed_int :: bool
  data :: "'f prop_data"
  data_stats :: "('f \<times> 'f) option"
  colour_map :: "(int \<times> ('f \<times> 'f \<times> 'f)) list"
  colourmap_name :: string
  class_name :: string
  no_data_marker :: "'f option"

text \<open>
  \<open>data_stats\<close> is the dict with the keys \<^verbatim>\<open>'min'\<close> and \<^verbatim>\<open>'max'\<close>, as the pair
  (min, max); \<open>None\<close> is the empty dict.
\<close>

definition new_PROPS :: "string \<Rightarrow> 'f PROPS" where
  "new_PROPS cname =
     \<lparr> file_name = '''', data_sz = 0, data_type = ''f'', signed_int = False,
       data = PointData [], data_stats = None, colour_map = [], colourmap_name = '''',
       class_name = cname, no_data_marker = None \<rparr>"

record 'f vessel =
  out :: "event list"
  header_name :: string
  prop_dict :: "(string \<times> 'f PROPS) list"
  invert_zaxis :: bool
  local_props :: "(string \<times> 'f PROPS) list"
  is_ts :: bool
  is_vs :: bool
  is_pl :: bool
  is_vo :: bool
  xyz_mult :: "'f \<times> 'f \<times> 'f"
  xyz_unit :: "string option \<times> string option \<times> string option"
  axis_origin :: "('f \<times> 'f \<times> 'f) option"
  axis_u :: "('f \<times> 'f \<times> 'f) option"
  axis_v :: "('f \<times> 'f \<times> 'f) option"
  axis_w :: "('f \<times> 'f \<times> 'f) option"
  vol_dims :: "(int \<times> int \<times> int) option"
  axis_min :: "('f \<times> 'f \<times> 'f) option"
  axis_max :: "('f \<times> 'f \<times> 'f) option"
  flags_array_length :: int
  flags_bit_length :: int
  flags_bit_size :: int
  flags_offset :: int
  flags_file :: string
  region_dict :: "(string \<times> string) list"
  flags_dict :: "((int \<times> int \<times> int) \<times> string) list"
  np_filename :: string
  coord_sys_name :: string
  usesDefaultCoords :: bool
  vrtx_arr :: "'f VRTX list"
  atom_arr :: "ATOM list"
  trgl_arr :: "TRGL list"
  seg_arr :: "SEG list"
  rgba_tup :: "'f \<times> 'f \<times> 'f \<times> 'f"
  minmax_calls :: "('f \<times> 'f \<times> 'f) list"

text \<open>
  \<open>out\<close> is what the run has logged and printed. The last six fields belong to the base
  class \<^verbatim>\<open>MODEL_GEOMETRIES\<close>, whose file \<^verbatim>\<open>model_geometries.py\<close> is not among the
  sources: the fields of the tuples \<^verbatim>\<open>VRTX\<close>, \<^verbatim>\<open>ATOM\<close>, \<^verbatim>\<open>TRGL\<close> and \<^verbatim>\<open>SEG\<close> are
  read off their uses in \<^verbatim>\<open>gocad_vessel.py\<close>, and \<open>minmax_calls\<close> records the arguments
  of the calls of \<^verbatim>\<open>_calc_minmax\<close> in order.
\<close>

definition new_vessel :: "'f runtime \<Rightarrow> 'f \<times> 'f \<times> 'f \<times> 'f \<Rightarrow> 'f vessel" where
  "new_vessel rt rgba0 =
     \<lparr> out = [], header_name = '''', prop_dict = [], invert_zaxis = False, local_props = [],
       is_ts = False, is_vs = False, is_pl = False, is_vo = False,
       xyz_mult = (fl_of_int rt 1, fl_of_int rt 1, fl_of_int rt 1),
       xyz_unit = (None, None, None),
       axis_origin = None, axis_u = None, axis_v = None, axis_w = None, vol_dims = None,
       axis_min = None, axis_max = None,
       flags_array_length = 0, flags_bit_length = 0, flags_bit_size = 0, flags_offset = 0,
       flags_file = '''', region_dict = [], flags_dict = [], np_filename = '''',
       coord_sys_name = ''DEFAULT'', usesDefaultCoords = True,
       vrtx_arr = [], atom_arr = [], trgl_arr = [], seg_arr = [], rgba_tup = rgba0,
       minmax_calls = [] \<rparr>"

text \<open>
  \<^verbatim>\<open>GOCAD_VESSEL.__init__\<close>.
  Modelled from the spec: \<^verbatim>\<open>MODEL_GEOMETRIES.__init__\<close> is missing. The spec has every
  entity built incrementally while one file's lines are scanned, so the four stores start
  empty; the colour the base class starts with is a parameter.
\<close>

section \<open>Logging and exceptions\<close>

definition emit :: "event \<Rightarrow> 'f vessel \<Rightarrow> 'f vessel" where
  "emit e st = st\<lparr>out := out st @ [e]\<rparr>"

definition log_debug :: "config \<Rightarrow> nat \<Rightarrow> 'f vessel \<Rightarrow> 'f vessel" where
  "log_debug cfg lno st = (if log_level cfg \<le> 10 then emit (LogDebug lno) st else st)"

definition log_info :: "config \<Rightarrow> nat \<Rightarrow> 'f vessel \<Rightarrow> 'f vessel" where
  "log_info cfg lno st = (if log_level cfg \<le> 20 then emit (LogInfo lno) st else st)"

definition log_warning :: "config \<Rightarrow> nat \<Rightarrow> 'f vessel \<Rightarrow> 'f vessel" where
  "log_warning cfg lno st = (if log_level cfg \<le> 30 then emit (LogWarning lno) st else st)"

definition log_error :: "config \<Rightarrow> nat \<Rightarrow> 'f vessel \<Rightarrow> 'f vessel" where
  "log_error cfg lno st = (if log_level cfg \<le> 40 then emit (LogError lno) st else st)"

definition handle_exc :: "config \<Rightarrow> 'f vessel \<Rightarrow> (unit, 'f vessel) res" where
  "handle_exc cfg st =
     (if log_level cfg = 10 \<or> STOP_ON_EXC cfg then
        (if STOP_ON_EXC cfg then
           SysExit (emit (Printed 282) (emit (Printed 281) (emit (Printed 280) st)))
         else
           SysExit (log_debug cfg 286 (log_debug cfg 285 (log_debug cfg 284 st))))
      else Ok () st)"

text \<open>
  \<^verbatim>\<open>__handle_exc\<close>: under its outer test both paths end in \<^verbatim>\<open>sys.exit(1)\<close>; when the test
  fails it does nothing and the caller goes on.
\<close>

section \<open>The float and integer scanners\<close>

definition parse_float ::
  "'f runtime \<Rightarrow> config \<Rightarrow> string \<Rightarrow> 'f option \<Rightarrow> 'f vessel \<Rightarrow> (bool \<times> 'f, 'f vessel) res" where
  "parse_float rt cfg fp_str null_val st0 =
     (let st = log_debug cfg 1011 st0 in
      if fp_str \<in> set [''1.#INF'', ''INF''] then Ok (True, float_info_max rt) st
      else if fp_str \<in> set [''-1.#INF'', ''-INF''] then Ok (True, fl_neg rt (float_info_max rt)) st
      else
        (case py_float rt fp_str of
           Some fp \<Rightarrow>
             (case null_val of
                Some nv \<Rightarrow> if fl_eq rt fp nv then Ok (False, nv) st else Ok (True, fp) st
              | None \<Rightarrow> Ok (True, fp) st)
         | None \<Rightarrow> bind_res (handle_exc cfg st) (\<lambda>_ st'. Ok (False, fl_of_int rt 0) st')))"

definition parse_float_num ::
  "'f runtime \<Rightarrow> config \<Rightarrow> 'f \<Rightarrow> 'f option \<Rightarrow> 'f vessel \<Rightarrow> (bool \<times> 'f, 'f vessel) res" where
  "parse_float_num rt cfg x null_val st0 =
     (let st = log_debug cfg 1011 st0 in
      case null_val of
        Some nv \<Rightarrow> if fl_eq rt x nv then Ok (False, nv) st else Ok (True, x) st
      | None \<Rightarrow> Ok (True, x) st)"

text \<open>
  \<^verbatim>\<open>__parse_float(fp_str, null_val)\<close>, on a string and on an element of a numpy array. The
  element is no string, so neither membership test holds for it, and \<^verbatim>\<open>float\<close> of it does
  not raise.
\<close>

definition parse_int :: "config \<Rightarrow> string \<Rightarrow> 'f vessel \<Rightarrow> (int option, 'f vessel) res" where
  "parse_int cfg int_str st =
     (case py_int int_str of
        Some num \<Rightarrow> Ok (Some num) st
      | None \<Rightarrow> bind_res (handle_exc cfg st) (\<lambda>_ st'. Ok None st'))"

text \<open>
  \<^verbatim>\<open>__parse_int(int_str)\<close>; every caller leaves \<^verbatim>\<open>null_val\<close> at \<^verbatim>\<open>None\<close>. The result
  \<open>Some num\<close> is the pair \<^verbatim>\<open>(True, num)\<close>, and \<open>None\<close> is \<^verbatim>\<open>(False, None)\<close>.
\<close>

definition calc_minmax :: "'f \<times> 'f \<times> 'f \<Rightarrow> 'f vessel \<Rightarrow> 'f vessel" where
  "calc_minmax p st = st\<lparr>minmax_calls := minmax_calls st @ [p]\<rparr>"

definition parse_XYZ_float ::
  "'f runtime \<Rightarrow> config \<Rightarrow> string \<Rightarrow> string \<Rightarrow> string \<Rightarrow> bool \<Rightarrow> bool \<Rightarrow> 'f vessel
     \<Rightarrow> (('f \<times> 'f \<times> 'f) option, 'f vessel) res" where
  "parse_XYZ_float rt cfg x_str y_str z_str do_minmax convert st0 =
     bind_res (parse_float rt cfg x_str None st0) (\<lambda>(converted1, x) st1.
     bind_res (parse_float rt cfg y_str None st1) (\<lambda>(converted2, y) st2.
     bind_res (parse_float rt cfg z_str None st2) (\<lambda>(converted3, z) st3.
       if \<not> converted1 \<or> \<not> converted2 \<or> \<not> converted3 then Ok None st3
       else
         (let (mx, my, mz) = xyz_mult st3;
              p = (if convert then (fl_mul rt x mx, fl_mul rt y my, fl_mul rt z mz)
                   else (x, y, z));
              st4 = (if do_minmax then calc_minmax p st3 else st3)
          in Ok (Some p) st4))))"

definition parse_XYZ_int ::
  "config \<Rightarrow> string \<Rightarrow> string \<Rightarrow> string \<Rightarrow> 'f vessel
     \<Rightarrow> ((int \<times> int \<times> int) option, 'f vessel) res" where
  "parse_XYZ_int cfg x_str y_str z_str st =
     (case (py_int x_str, py_int y_str, py_int z_str) of
        (Some x, Some y, Some z) \<Rightarrow> Ok (Some (x, y, z)) st
      | _ \<Rightarrow> bind_res (handle_exc cfg st) (\<lambda>_ st'. Ok None st'))"

text \<open>
  \<^verbatim>\<open>__parse_XYZ\<close> with \<^verbatim>\<open>is_float\<close> true and false. The result \<open>Some (x, y, z)\<close> is
  the tuple \<^verbatim>\<open>(True, x, y, z)\<close>, and \<open>None\<close> is \<^verbatim>\<open>(False, None, None, None)\<close>. Every
  call with \<^verbatim>\<open>is_float\<close> false passes \<^verbatim>\<open>do_minmax\<close> and \<^verbatim>\<open>convert\<close> false.
\<close>

section \<open>Vertices and atoms\<close>

definition check_vertex :: "'f vessel \<Rightarrow> int \<Rightarrow> bool" where
  "check_vertex st num = (num \<in> set (map vrtx_n (vrtx_arr st)))"

text \<open>
  Modelled from the spec: \<^verbatim>\<open>MODEL_GEOMETRIES._check_vertex\<close> is missing. The spec's
  invariant for an atom is that the referenced vertex already exists in the coordinate store
  when the atom is parsed: the check holds when a vertex with this sequence number is stored.
\<close>

fun assign_vertices :: "'f VRTX list \<Rightarrow> nat \<Rightarrow> (int \<rightharpoonup> nat) \<Rightarrow> (int \<rightharpoonup> nat)" where
  "assign_vertices [] idx vert_dict = vert_dict"
| "assign_vertices (v # vs) idx vert_dict = assign_vertices vs (idx + 1) (vert_dict(vrtx_n v \<mapsto> idx))"

fun find_vertex :: "'f VRTX list \<Rightarrow> int \<Rightarrow> nat \<Rightarrow> nat option" where
  "find_vertex [] a idx = None"
| "find_vertex (vert # vs) a idx = (if vrtx_n vert = a then Some idx else find_vertex vs a (idx + 1))"

fun assign_atoms :: "'f VRTX list \<Rightarrow> ATOM list \<Rightarrow> (int \<rightharpoonup> nat) \<Rightarrow> (int \<rightharpoonup> nat)" where
  "assign_atoms vrtx [] vert_dict = vert_dict"
| "assign_atoms vrtx (atom # atoms) vert_dict =
     assign_atoms vrtx atoms
       (case find_vertex vrtx (atom_v atom) 1 of
          Some idx \<Rightarrow> vert_dict(atom_n atom \<mapsto> idx)
        | None \<Rightarrow> vert_dict)"

definition make_vertex_dict :: "'f vessel \<Rightarrow> (int \<rightharpoonup> nat)" where
  "make_vertex_dict st =
     assign_atoms (vrtx_arr st) (atom_arr st) (assign_vertices (vrtx_arr st) 1 Map.empty)"

text \<open>
  \<^verbatim>\<open>make_vertex_dict\<close>: the first loop numbers the vertices from 1 in insertion order, the
  second gives every atom the number of the first vertex that has the sequence number it
  refers to.
\<close>

section \<open>Properties attached to points\<close>

definition key_eq :: "'f runtime \<Rightarrow> 'f coord \<Rightarrow> 'f coord \<Rightarrow> bool" where
  "key_eq rt k1 k2 =
     (case (k1, k2) of
        ((i, (x1, y1, z1)), (j, (x2, y2, z2))) \<Rightarrow>
          i = j \<or> (fl_eq rt x1 x2 \<and> fl_eq rt y1 y2 \<and> fl_eq rt z1 z2))"

text \<open>
  The test a dict makes between a stored key and the key looked up: they are the same object,
  or they compare equal. Two tuples compare equal when each pair of items is one object or is
  \<^verbatim>\<open>==\<close>. So \<^verbatim>\<open>-0.0\<close> and \<^verbatim>\<open>0.0\<close> make one key, and a coordinate that is not a
  number makes one key with the tuples of its own vertex only.
\<close>

fun dict_set :: "('k \<Rightarrow> 'k \<Rightarrow> bool) \<Rightarrow> 'k \<Rightarrow> 'v \<Rightarrow> ('k \<times> 'v) list \<Rightarrow> ('k \<times> 'v) list" where
  "dict_set eq k v [] = [(k, v)]"
| "dict_set eq k v ((k', v') # kvs) =
     (if eq k' k then (k', v) # kvs else (k', v') # dict_set eq k v kvs)"

text \<open>
  \<^verbatim>\<open>d[k] = v\<close> on a dict in insertion order: the value of the stored key that matches is
  replaced and the stored key stays; a new key goes to the end.
\<close>

definition set_point :: "'f runtime \<Rightarrow> 'f coord \<Rightarrow> 'f pval \<Rightarrow> 'f PROPS \<Rightarrow> py_exc + 'f PROPS" where
  "set_point rt coord_tup v prop_obj =
     (case data prop_obj of
        PointData d \<Rightarrow> Inr (prop_obj\<lparr>data := PointData (dict_set (key_eq rt) coord_tup v d)\<rparr>)
      | VoxelData shape cells \<Rightarrow> Inl IndexError)"

text \<open>
  \<^verbatim>\<open>prop_obj.data[coord_tup] = v\<close>; a numpy array refuses a tuple of floats as an index.
\<close>

definition skip_cn :: "string list \<Rightarrow> nat \<Rightarrow> nat" where
  "skip_cn splitstr_arr col_idx =
     (case nth_opt splitstr_arr col_idx of
        Some fp_str \<Rightarrow> if py_upper (take 2 fp_str) = ''CN'' then col_idx + 1 else col_idx
      | None \<Rightarrow> col_idx)"

definition parse_prop ::
  "'f runtime \<Rightarrow> config \<Rightarrow> string list \<Rightarrow> 'f coord \<Rightarrow> nat \<Rightarrow> 'f PROPS \<Rightarrow> 'f vessel
     \<Rightarrow> (nat \<times> 'f PROPS, 'f vessel) res" where
  "parse_prop rt cfg splitstr_arr coord_tup col_idx0 prop_obj st0 =
     (if data_sz prop_obj = 1 then
        (case nth_opt splitstr_arr col_idx0 of
           None \<Rightarrow> Raised IndexError st0
         | Some _ \<Rightarrow>
            (let col_idx = skip_cn splitstr_arr col_idx0 in
             case nth_opt splitstr_arr col_idx of
               None \<Rightarrow> Raised IndexError st0
             | Some fp_str \<Rightarrow>
                bind_res (parse_float rt cfg fp_str (no_data_marker prop_obj) st0)
                  (\<lambda>(converted, fp) st.
                     if converted then
                       (case set_point rt coord_tup (Scalar fp) prop_obj of
                          Inl e \<Rightarrow> Raised e st
                        | Inr prop_obj' \<Rightarrow> Ok (col_idx + 1, prop_obj') (log_debug cfg 980 st))
                     else Ok (col_idx + 1, prop_obj) st)))
      else if data_sz prop_obj = 3 then
        (case nth_opt splitstr_arr col_idx0 of
           None \<Rightarrow> Raised IndexError st0
         | Some _ \<Rightarrow>
            (let col_idx = skip_cn splitstr_arr col_idx0 in
             case (nth_opt splitstr_arr col_idx, nth_opt splitstr_arr (col_idx + 1),
                   nth_opt splitstr_arr (col_idx + 2)) of
               (Some fp_strX, Some fp_strY, Some fp_strZ) \<Rightarrow>
                 bind_res (parse_float rt cfg fp_strX (no_data_marker prop_obj) st0)
                   (\<lambda>(convertedX, fpX) st1.
                 bind_res (parse_float rt cfg fp_strY (no_data_marker prop_obj) st1)
                   (\<lambda>(convertedY, fpY) st2.
                 bind_res (parse_float rt cfg fp_strZ (no_data_marker prop_obj) st2)
                   (\<lambda>(convertedZ, fpZ) st.
                     if convertedZ \<and> convertedY \<and> convertedX then
                       (case set_point rt coord_tup (Vec3 fpX fpY fpZ) prop_obj of
                          Inl e \<Rightarrow> Raised e st
                        | Inr prop_obj' \<Rightarrow> Ok (col_idx + 3, prop_obj') (log_debug cfg 996 st))
                     else Ok (col_idx + 3, prop_obj) st)))
             | _ \<Rightarrow> Raised IndexError st0))
      else SysExit (log_error cfg 999 st0))"

text \<open>
  The body of the loop of \<^verbatim>\<open>__parse_props\<close> for one property: it returns the next column
  and the property as it leaves it. The three reads of a 3-float property come before the
  first call of \<^verbatim>\<open>__parse_float\<close>, so a missing column raises before anything is logged.
\<close>

fun parse_props_loop ::
  "'f runtime \<Rightarrow> config \<Rightarrow> string list \<Rightarrow> 'f coord \<Rightarrow> string list \<Rightarrow> nat \<Rightarrow> 'f vessel
     \<Rightarrow> (unit, 'f vessel) res" where
  "parse_props_loop rt cfg splitstr_arr coord_tup [] col_idx st = Ok () st"
| "parse_props_loop rt cfg splitstr_arr coord_tup (k # ks) col_idx st =
     (case map_of (local_props st) k of
        None \<Rightarrow> Raised KeyError st
      | Some prop_obj \<Rightarrow>
         bind_res (parse_prop rt cfg splitstr_arr coord_tup col_idx prop_obj st)
           (\<lambda>(col_idx', prop_obj') st'.
              parse_props_loop rt cfg splitstr_arr coord_tup ks col_idx'
                (st'\<lparr>local_props := AList.update k prop_obj' (local_props st')\<rparr>)))"

definition parse_props ::
  "'f runtime \<Rightarrow> config \<Rightarrow> string list \<Rightarrow> 'f coord \<Rightarrow> bool \<Rightarrow> 'f vessel
     \<Rightarrow> (unit, 'f vessel) res" where
  "parse_props rt cfg splitstr_arr coord_tup is_patom st =
     parse_props_loop rt cfg splitstr_arr coord_tup (map fst (local_props st))
       (if is_patom then 3 else 5) st"

text \<open>
  \<^verbatim>\<open>__parse_props\<close>: the loop runs over the properties in the order of the ordered dict,
  by their keys; each property is written back under its key as soon as its columns are
  read, so that an exception at a later property leaves the earlier ones updated.
\<close>

section \<open>File type and property headers\<close>

definition GOCAD_HEADERS :: "(string \<times> string list) list" where
  "GOCAD_HEADERS =
     [(''TS'', [''GOCAD TSURF 1'']),
      (''VS'', [''GOCAD VSET 1'']),
      (''PL'', [''GOCAD PLINE 1'']),
      (''GP'', [''GOCAD HETEROGENEOUSGROUP 1'', ''GOCAD HOMOGENEOUSGROUP 1'']),
      (''VO'', [''GOCAD VOXET 1''])]"

definition headers_of :: "string \<Rightarrow> string list" where
  "headers_of key = (case map_of GOCAD_HEADERS key of Some hs \<Rightarrow> hs | None \<Rightarrow> [])"

definition setType :: "config \<Rightarrow> string \<Rightarrow> string \<Rightarrow> 'f vessel \<Rightarrow> bool \<times> 'f vessel" where
  "setType cfg fileExt firstLineStr st0 =
     (let st = log_debug cfg 781 st0;
          ext_str0 = py_upper (py_lstrip (one_of ''.'') fileExt);
          found = find (\<lambda>(key, hs). key \<noteq> ''GP'' \<and> firstLineStr \<in> set hs) GOCAD_HEADERS;
          ext_str = (if ext_str0 = ''GP'' then (case found of Some (key, hs) \<Rightarrow> key | None \<Rightarrow> ext_str0)
                     else ext_str0)
      in if ext_str0 = ''GP'' \<and> found = None then (False, st)
         else if ext_str \<in> set (map fst GOCAD_HEADERS) then
           (if ext_str = ''TS'' \<and> firstLineStr \<in> set (headers_of ''TS'') then (True, st\<lparr>is_ts := True\<rparr>)
            else if ext_str = ''VS'' \<and> firstLineStr \<in> set (headers_of ''VS'') then (True, st\<lparr>is_vs := True\<rparr>)
            else if ext_str = ''PL'' \<and> firstLineStr \<in> set (headers_of ''PL'') then (True, st\<lparr>is_pl := True\<rparr>)
            else if ext_str = ''VO'' \<and> firstLineStr \<in> set (headers_of ''VO'') then (True, st\<lparr>is_vo := True\<rparr>)
            else (False, st))
         else (False, st))"

definition opt_float :: "'f runtime \<Rightarrow> string option \<Rightarrow> 'f option" where
  "opt_float rt s = (case s of None \<Rightarrow> None | Some t \<Rightarrow> py_float rt t)"

definition opt_int :: "string option \<Rightarrow> int option" where
  "opt_int s = (case s of None \<Rightarrow> None | Some t \<Rightarrow> py_int t)"

text \<open>
  \<^verbatim>\<open>float(arr[i])\<close> and \<^verbatim>\<open>int(arr[i])\<close> inside a \<^verbatim>\<open>try\<close> whose handler treats
  \<^verbatim>\<open>IndexError\<close> and \<^verbatim>\<open>ValueError\<close> alike: \<open>None\<close> is either exception.
\<close>

datatype prop_ref = InPropDict string | InLocalProps string

definition get_prop :: "prop_ref \<Rightarrow> 'f vessel \<Rightarrow> 'f PROPS option" where
  "get_prop r st =
     (case r of
        InPropDict k \<Rightarrow> map_of (prop_dict st) k
      | InLocalProps k \<Rightarrow> map_of (local_props st) k)"

definition put_prop :: "prop_ref \<Rightarrow> 'f PROPS \<Rightarrow> 'f vessel \<Rightarrow> 'f vessel" where
  "put_prop r prop_obj st =
     (case r of
        InPropDict k \<Rightarrow> st\<lparr>prop_dict := AList.update k prop_obj (prop_dict st)\<rparr>
      | InLocalProps k \<Rightarrow> st\<lparr>local_props := AList.update k prop_obj (local_props st)\<rparr>)"

text \<open>
  A \<^verbatim>\<open>PROPS\<close> object is reached through one of the two dicts of the vessel; the
  reference names the dict and the key, and a write to the object is a write under this key.
\<close>

function colour_loop ::
  "'f runtime \<Rightarrow> config \<Rightarrow> string list \<Rightarrow> prop_ref \<Rightarrow> 'f vessel \<Rightarrow> (unit, 'f vessel) res" where
  "colour_loop rt cfg [] r st = Ok () st"
| "colour_loop rt cfg (a # rest) r st =
     (case (opt_float rt (nth_opt rest 0), opt_float rt (nth_opt rest 1),
            opt_float rt (nth_opt rest 2), py_int a, get_prop r st) of
        (Some red, Some green, Some blue, Some i, Some prop_obj) \<Rightarrow>
          colour_loop rt cfg (drop 3 rest) r
            (log_debug cfg 837
               (put_prop r (prop_obj\<lparr>colour_map := AList.update i (red, green, blue) (colour_map prop_obj)\<rparr>) st))
      | (_, _, _, _, None) \<Rightarrow> Raised KeyError st
      | _ \<Rightarrow>
          (case handle_exc cfg st of
             Ok u st' \<Rightarrow> colour_loop rt cfg (drop 3 rest) r st'
           | SysExit st' \<Rightarrow> SysExit st'
           | Raised e st' \<Rightarrow> Raised e st'))"
  by pat_completeness auto

termination colour_loop
  by (relation "measure (\<lambda>(rt, cfg, lut_arr, r, st). length lut_arr)") auto

definition parse_property_header ::
  "'f runtime \<Rightarrow> config \<Rightarrow> prop_ref \<Rightarrow> string \<Rightarrow> 'f vessel \<Rightarrow> (unit, 'f vessel) res" where
  "parse_property_header rt cfg r line_str st =
     (case get_prop r st of
        None \<Rightarrow> Raised KeyError st
      | Some prop_obj \<Rightarrow>
         (case py_partition (CHR '':'') line_str of
            (n, sep, v) \<Rightarrow>
              (let name_str = py_strip is_space n;
                   value_str = py_strip is_space v
               in if name_str = ''*COLORMAP*SIZE'' then Ok () (log_debug cfg 820 st)
                  else if name_str = ''*COLORMAP*NBCOLORS'' then Ok () (log_debug cfg 822 st)
                  else if name_str = ''HIGH_CLIP'' then Ok () (log_debug cfg 824 st)
                  else if name_str = ''LOW_CLIP'' then Ok () (log_debug cfg 826 st)
                  else if name_str = ''COLORMAP'' then
                    Ok () (log_debug cfg 830 (put_prop r (prop_obj\<lparr>colourmap_name := value_str\<rparr>) st))
                  else if name_str = ''*COLORMAP*'' @ colourmap_name prop_obj @ ''*COLORS'' then
                    colour_loop rt cfg (py_split_on (CHR '' '') value_str) r st
                  else Ok () st)))"

text \<open>
  \<^verbatim>\<open>__parse_property_header\<close>. The colour table is read four fields at a time; a group
  that does not convert goes to \<^verbatim>\<open>__handle_exc\<close> and the loop goes on with the next group.
\<close>

section \<open>The state of the loop over the lines\<close>

record locals =
  firstLine :: bool
  inHeader :: bool
  inCoord :: bool
  inPropClassHeader :: bool
  inLocalPropClassHeader :: bool
  propClassIndex :: string
  seq_no :: int
  seq_no_prev :: int

definition init_locals :: locals where
  "init_locals =
     \<lparr> firstLine = True, inHeader = False, inCoord = False, inPropClassHeader = False,
       inLocalPropClassHeader = False, propClassIndex = '''', seq_no = 0, seq_no_prev = - 1 \<rparr>"

datatype ctl = Continue | Return bool

datatype branch =
    B_first | B_subset | B_cnp | B_coord_begin | B_coord_end | B_coord_name | B_zpositive
  | B_header | B_property_class_header | B_header_end | B_in_prop_class_header
  | B_in_local_prop_class_header | B_in_header | B_axis_unit | B_properties
  | B_property_classes | B_esizes | B_no_data_values | B_atom | B_vrtx | B_trgl | B_seg
  | B_prop_file | B_prop_esize | B_prop_storage_type | B_prop_signed | B_prop_etype
  | B_prop_eformat | B_prop_offset | B_prop_no_data_value | B_axis_o | B_axis_u | B_axis_v
  | B_axis_w | B_axis_n | B_axis_min | B_axis_max | B_flags_array_length
  | B_flags_bit_length | B_flags_esize | B_flags_offset | B_flags_file | B_region | B_none

definition keyword_branch :: "string \<Rightarrow> branch" where
  "keyword_branch t0 =
     (case map_of
        [(''AXIS_UNIT'', B_axis_unit), (''PROPERTIES'', B_properties),
         (''PROPERTY_CLASSES'', B_property_classes), (''ESIZES'', B_esizes),
         (''NO_DATA_VALUES'', B_no_data_values), (''ATOM'', B_atom), (''PATOM'', B_atom),
         (''PVRTX'', B_vrtx), (''VRTX'', B_vrtx), (''TRGL'', B_trgl), (''SEG'', B_seg),
         (''PROP_FILE'', B_prop_file), (''PROP_ESIZE'', B_prop_esize),
         (''PROP_STORAGE_TYPE'', B_prop_storage_type), (''PROP_SIGNED'', B_prop_signed),
         (''PROP_ETYPE'', B_prop_etype), (''PROP_EFORMAT'', B_prop_eformat),
         (''PROP_OFFSET'', B_prop_offset), (''PROP_NO_DATA_VALUE'', B_prop_no_data_value),
         (''AXIS_O'', B_axis_o), (''AXIS_U'', B_axis_u), (''AXIS_V'', B_axis_v),
         (''AXIS_W'', B_axis_w), (''AXIS_N'', B_axis_n), (''AXIS_MIN'', B_axis_min),
         (''AXIS_MAX'', B_axis_max), (''FLAGS_ARRAY_LENGTH'', B_flags_array_length),
         (''FLAGS_BIT_LENGTH'', B_flags_bit_length), (''FLAGS_ESIZE'', B_flags_esize),
         (''FLAGS_OFFSET'', B_flags_offset), (''FLAGS_FILE'', B_flags_file),
         (''REGION'', B_region)] t0 of
        Some b \<Rightarrow> b
      | None \<Rightarrow> B_none)"

text \<open>
  The tail of the \<^verbatim>\<open>elif\<close> chain, from \<^verbatim>\<open>AXIS_UNIT\<close> on: each test compares the first
  token with a keyword, and the keywords differ, so the chain is a lookup.
\<close>

definition dispatch :: "locals \<Rightarrow> string \<Rightarrow> string list \<Rightarrow> py_exc + branch" where
  "dispatch lc t0 ts =
     (if firstLine lc then Inr B_first
      else if t0 \<in> set [''SUBVSET'', ''ILINE'', ''TFACE'', ''TVOLUME''] then Inr B_subset
      else if t0 = ''CNP'' then Inr B_cnp
      else if t0 = ''GOCAD_ORIGINAL_COORDINATE_SYSTEM'' then Inr B_coord_begin
      else if t0 = ''END_ORIGINAL_COORDINATE_SYSTEM'' then Inr B_coord_end
      else if inCoord lc \<and> t0 = ''NAME'' then Inr B_coord_name
      else if inCoord lc \<and> t0 = ''ZPOSITIVE'' \<and> ts = [] then Inl IndexError
      else if inCoord lc \<and> t0 = ''ZPOSITIVE'' \<and> take 1 ts = [''DEPTH''] then Inr B_zpositive
      else if t0 = ''HEADER'' then Inr B_header
      else if t0 = ''PROPERTY_CLASS_HEADER'' then Inr B_property_class_header
      else if inHeader lc \<and> t0 = ''}'' then Inr B_header_end
      else if inPropClassHeader lc then Inr B_in_prop_class_header
      else if inLocalPropClassHeader lc then Inr B_in_local_prop_class_header
      else if inHeader lc then Inr B_in_header
      else Inr (keyword_branch t0))"

text \<open>
  The branch of the loop body that a non-blank line takes: \<open>t0\<close> is the first token of the
  upper-cased line and \<open>ts\<close> are the others. Testing \<^verbatim>\<open>splitstr_arr[1] == "DEPTH"\<close> on a
  line of one token raises.
\<close>

section \<open>The branches of the loop body\<close>

definition go :: "locals \<Rightarrow> 'f vessel \<Rightarrow> (ctl \<times> locals, 'f vessel) res" where
  "go lc st = Ok (Continue, lc) st"

definition with_prop :: "string \<Rightarrow> ('f PROPS \<Rightarrow> 'f PROPS) \<Rightarrow> 'f vessel \<Rightarrow> (unit, 'f vessel) res" where
  "with_prop k f st =
     (case map_of (prop_dict st) k of
        None \<Rightarrow> Raised KeyError st
      | Some prop_obj \<Rightarrow> Ok () (st\<lparr>prop_dict := AList.update k (f prop_obj) (prop_dict st)\<rparr>))"

text \<open>An assignment to an attribute of \<^verbatim>\<open>self.prop_dict[k]\<close>.\<close>

definition do_first ::
  "config \<Rightarrow> string \<Rightarrow> string \<Rightarrow> locals \<Rightarrow> 'f vessel \<Rightarrow> (ctl \<times> locals, 'f vessel) res" where
  "do_first cfg fileExt line_str lc st =
     (case setType cfg fileExt line_str st of
        (ok, st') \<Rightarrow>
          if ok then go (lc\<lparr>firstLine := False\<rparr>) st'
          else Ok (Return False, lc\<lparr>firstLine := False\<rparr>) (log_debug cfg 379 st'))"

definition do_coord_name ::
  "config \<Rightarrow> string list \<Rightarrow> locals \<Rightarrow> 'f vessel \<Rightarrow> (ctl \<times> locals, 'f vessel) res" where
  "do_coord_name cfg arr lc st =
     (case nth_opt arr 1 of
        None \<Rightarrow> Raised IndexError st
      | Some nm \<Rightarrow>
         (let st1 = st\<lparr>coord_sys_name := nm\<rparr> in
          if nm \<noteq> ''DEFAULT'' then
            (let st2 = log_debug cfg 408 (st1\<lparr>usesDefaultCoords := False\<rparr>) in
             if \<not> nondefault_coords cfg then
               Ok (Return False, lc) (log_debug cfg 414 (log_warning cfg 413 st2))
             else go lc st2)
          else go lc st1))"

definition do_property_class_header ::
  "config \<Rightarrow> string list \<Rightarrow> locals \<Rightarrow> 'f vessel \<Rightarrow> (ctl \<times> locals, 'f vessel) res" where
  "do_property_class_header cfg arr lc st =
     (case nth_opt arr 1 of
        None \<Rightarrow> Raised IndexError st
      | Some idx \<Rightarrow>
         (case nth_opt arr 2 of
            None \<Rightarrow> Raised IndexError st
          | Some t2 \<Rightarrow>
             if t2 = ''{'' then
               go (lc\<lparr>propClassIndex := idx, inLocalPropClassHeader := True\<rparr>) (log_debug cfg 442 st)
             else
               (case nth_opt arr 3 of
                  None \<Rightarrow> Raised IndexError st
                | Some t3 \<Rightarrow>
                   if t3 = ''{'' then
                     go (lc\<lparr>propClassIndex := idx, inPropClassHeader := True\<rparr>)
                        (log_debug cfg 442
                           (if map_of (prop_dict st) idx = None
                            then st\<lparr>prop_dict := AList.update idx (new_PROPS t2) (prop_dict st)\<rparr>
                            else st))
                   else SysExit (log_error cfg 440 st))))"

definition do_in_prop_class_header ::
  "'f runtime \<Rightarrow> config \<Rightarrow> string list \<Rightarrow> string \<Rightarrow> locals \<Rightarrow> 'f vessel
     \<Rightarrow> (ctl \<times> locals, 'f vessel) res" where
  "do_in_prop_class_header rt cfg arr line_str lc st =
     (if nth_opt arr 0 = Some ''}'' then
        go (lc\<lparr>inPropClassHeader := False, propClassIndex := ''''\<rparr>) (log_debug cfg 455 st)
      else
        bind_res (parse_property_header rt cfg (InPropDict (propClassIndex lc)) line_str st)
          (\<lambda>_ st'. go lc st'))"

definition do_in_local_prop_class_header ::
  "'f runtime \<Rightarrow> config \<Rightarrow> string list \<Rightarrow> string \<Rightarrow> locals \<Rightarrow> 'f vessel
     \<Rightarrow> (ctl \<times> locals, 'f vessel) res" where
  "do_in_local_prop_class_header rt cfg arr line_str lc st =
     (if nth_opt arr 0 = Some ''}'' then
        go (lc\<lparr>inLocalPropClassHeader := False, propClassIndex := ''''\<rparr>) (log_debug cfg 466 st)
      else if map_of (local_props st) (propClassIndex lc) \<noteq> None then
        bind_res (parse_property_header rt cfg (InLocalProps (propClassIndex lc)) line_str st)
          (\<lambda>_ st'. go lc st')
      else go lc st)"

definition parse_colour :: "'f runtime \<Rightarrow> string \<Rightarrow> py_exc + ('f \<times> 'f \<times> 'f \<times> 'f) option" where
  "parse_colour rt value_str =
     (case value_str of
        [] \<Rightarrow> Inl IndexError
      | c # cs \<Rightarrow>
         if c \<noteq> CHR ''#'' then
           (let rgbsplit_arr = py_split_on (CHR '' '') value_str in
            if length rgbsplit_arr = 3 then
              (case map (py_float rt) rgbsplit_arr of
                 [Some r, Some g, Some b] \<Rightarrow> Inr (Some (r, g, b, fl_of_int rt 1))
               | _ \<Rightarrow> Inl ValueError)
            else if length rgbsplit_arr = 4 then
              (case map (py_float rt) rgbsplit_arr of
                 [Some r, Some g, Some b, Some a] \<Rightarrow> Inr (Some (r, g, b, a))
               | _ \<Rightarrow> Inl ValueError)
            else Inr None)
         else
           (case (py_int_base 16 (py_slice 1 3 value_str), py_int_base 16 (py_slice 3 5 value_str),
                  py_int_base 16 (py_slice 5 7 value_str)) of
              (Some r, Some g, Some b) \<Rightarrow>
                Inr (Some (fl_div rt (fl_of_int rt r) (fl_of_int rt 255),
                           fl_div rt (fl_of_int rt g) (fl_of_int rt 255),
                           fl_div rt (fl_of_int rt b) (fl_of_int rt 255), fl_of_int rt 1))
            | _ \<Rightarrow> Inl ValueError))"

text \<open>
  The body of the \<^verbatim>\<open>try\<close> of the colour branch: \<open>Inl\<close> is the exception it raises,
  \<open>Inr (Some rgba)\<close> the tuple it assigns, and \<open>Inr None\<close> the path that assigns nothing
  (a value with neither three nor four fields, which is only logged at debug level).
\<close>

definition do_in_header ::
  "'f runtime \<Rightarrow> config \<Rightarrow> string \<Rightarrow> locals \<Rightarrow> 'f vessel \<Rightarrow> (ctl \<times> locals, 'f vessel) res" where
  "do_in_header rt cfg line_str lc st0 =
     (case py_partition (CHR '':'') line_str of
        (n, sep, v) \<Rightarrow>
          (let name_str = py_strip is_space n;
               value_str = py_strip is_space v;
               st = log_debug cfg 477 st0
           in bind_res
                (if name_str = ''*SOLID*COLOR'' \<or> name_str = ''*ATOMS*COLOR'' then
                   (case parse_colour rt value_str of
                      Inr (Some rgba) \<Rightarrow> Ok () (log_debug cfg 495 (st\<lparr>rgba_tup := rgba\<rparr>))
                    | Inr None \<Rightarrow> Ok () (log_debug cfg 495 (log_debug cfg 488 st))
                    | Inl e \<Rightarrow>
                       bind_res (handle_exc cfg st)
                         (\<lambda>_ st'. Ok () (log_debug cfg 495
                            (st'\<lparr>rgba_tup := (fl_of_int rt 1, fl_of_int rt 1, fl_of_int rt 1, fl_of_int rt 1)\<rparr>))))
                 else Ok () st)
                (\<lambda>_ st1.
                   if name_str = ''NAME'' then
                     go lc (log_debug cfg 499 (st1\<lparr>header_name := py_replace (CHR ''/'') (CHR ''-'') value_str\<rparr>))
                   else go lc st1)))"

definition set3 :: "nat \<Rightarrow> 'a \<Rightarrow> 'a \<times> 'a \<times> 'a \<Rightarrow> 'a \<times> 'a \<times> 'a" where
  "set3 i v t = (case t of (a, b, c) \<Rightarrow> if i = 0 then (v, b, c) else if i = 1 then (a, v, c) else (a, b, v))"

fun axis_unit_loop ::
  "'f runtime \<Rightarrow> config \<Rightarrow> string list \<Rightarrow> nat list \<Rightarrow> 'f vessel \<Rightarrow> (unit, 'f vessel) res" where
  "axis_unit_loop rt cfg arr [] st = Ok () st"
| "axis_unit_loop rt cfg arr (idx # idxs) st =
     (case nth_opt arr (idx + 1) of
        None \<Rightarrow> Raised IndexError st
      | Some t \<Rightarrow>
         (let unit_str = py_strip (one_of [CHR 0x27]) (py_strip (one_of '' '') (py_strip (one_of [CHR 0x22]) t))
          in axis_unit_loop rt cfg arr idxs
               (if unit_str = ''KM'' then st\<lparr>xyz_mult := set3 idx (fl_of_int rt 1000) (xyz_mult st)\<rparr>
                else if unit_str \<notin> set [''M'', ''UNITLESS'', ''NUMBER'', ''MS''] then log_warning cfg 509 st
                else st\<lparr>xyz_unit := set3 idx (Some unit_str) (xyz_unit st)\<rparr>)))"

definition do_properties ::
  "config \<Rightarrow> nat \<Rightarrow> string list \<Rightarrow> locals \<Rightarrow> 'f vessel \<Rightarrow> (ctl \<times> locals, 'f vessel) res" where
  "do_properties cfg lno arr lc st =
     go lc (log_debug cfg lno
       (if local_props st = [] then
          st\<lparr>local_props :=
               fold (\<lambda>class_name lp. AList.update class_name (new_PROPS class_name) lp) (drop 1 arr) []\<rparr>
        else st))"

text \<open>
  The branches \<^verbatim>\<open>PROPERTIES\<close> and \<^verbatim>\<open>PROPERTY_CLASSES\<close> have the same body; \<open>lno\<close> is
  the line of the debug call, 518 or 525.
\<close>

fun esizes_loop ::
  "config \<Rightarrow> string list \<Rightarrow> string list \<Rightarrow> nat \<Rightarrow> 'f vessel \<Rightarrow> (unit, 'f vessel) res" where
  "esizes_loop cfg arr [] idx st = Ok () st"
| "esizes_loop cfg arr (k # ks) idx st =
     (case opt_int (nth_opt arr idx) of
        Some n \<Rightarrow>
          esizes_loop cfg arr ks (idx + 1)
            (st\<lparr>local_props := AList.map_entry k (\<lambda>prop_obj. prop_obj\<lparr>data_sz := n\<rparr>) (local_props st)\<rparr>)
      | None \<Rightarrow> bind_res (handle_exc cfg st) (\<lambda>_ st'. esizes_loop cfg arr ks (idx + 1) st'))"

fun no_data_loop ::
  "'f runtime \<Rightarrow> config \<Rightarrow> string list \<Rightarrow> string list \<Rightarrow> nat \<Rightarrow> 'f vessel \<Rightarrow> (unit, 'f vessel) res" where
  "no_data_loop rt cfg arr [] idx st = Ok () st"
| "no_data_loop rt cfg arr (k # ks) idx st =
     (case nth_opt arr idx of
        None \<Rightarrow> bind_res (handle_exc cfg st) (\<lambda>_ st'. no_data_loop rt cfg arr ks (idx + 1) st')
      | Some t \<Rightarrow>
         bind_res (parse_float rt cfg t None st)
           (\<lambda>(converted, fp) st'.
              no_data_loop rt cfg arr ks (idx + 1)
                (if converted then
                   log_debug cfg 547
                     (st'\<lparr>local_props :=
                            AList.map_entry k (\<lambda>prop_obj. prop_obj\<lparr>no_data_marker := Some fp\<rparr>)
                              (local_props st')\<rparr>)
                 else st')))"

text \<open>
  The loops of \<^verbatim>\<open>ESIZES\<close> and \<^verbatim>\<open>NO_DATA_VALUES\<close> over the values of the ordered dict, by
  their keys, with the column \<open>idx\<close> that starts at 1.
\<close>

definition restore_seq :: "config \<Rightarrow> locals \<Rightarrow> 'f vessel \<Rightarrow> (ctl \<times> locals, 'f vessel) res" where
  "restore_seq cfg lc st =
     bind_res (handle_exc cfg st) (\<lambda>_ st'. go (lc\<lparr>seq_no := seq_no_prev lc\<rparr>) st')"

text \<open>
  The handler shared by the branches of the numbered lines:
  \<^verbatim>\<open>self.__handle_exc(exc); seq_no = seq_no_prev\<close>.
\<close>

definition do_patom_props ::
  "'f runtime \<Rightarrow> config \<Rightarrow> string list \<Rightarrow> int \<Rightarrow> 'f vessel \<Rightarrow> (unit, 'f vessel) res" where
  "do_patom_props rt cfg arr v_num st =
     (case make_vertex_dict st v_num of
        None \<Rightarrow> Raised KeyError st
      | Some i \<Rightarrow>
         (case nth_opt (vrtx_arr st) i of
            None \<Rightarrow> handle_exc cfg st
          | Some vert \<Rightarrow>
             (case parse_props rt cfg arr (i, vrtx_xyz vert) True st of
                Raised IndexError st' \<Rightarrow> handle_exc cfg st'
              | r \<Rightarrow> r)))"

text \<open>
  The \<^verbatim>\<open>try\<close> of a \<^verbatim>\<open>PATOM\<close> line:
  \<^verbatim>\<open>self.__parse_props(splitstr_arr, self._vrtx_arr[vert_dict[v_num]].xyz, True)\<close>, whose
  handler catches \<^verbatim>\<open>IndexError\<close> only. The number that \<^verbatim>\<open>vert_dict\<close> gives indexes the
  Python list \<^verbatim>\<open>_vrtx_arr\<close>, whose first element has index 0; the key is the tuple of the
  vertex found there.
\<close>

definition do_atom ::
  "'f runtime \<Rightarrow> config \<Rightarrow> string list \<Rightarrow> locals \<Rightarrow> 'f vessel \<Rightarrow> (ctl \<times> locals, 'f vessel) res" where
  "do_atom rt cfg arr lc0 st =
     (let lc = lc0\<lparr>seq_no_prev := seq_no lc0\<rparr> in
      case (opt_int (nth_opt arr 1), opt_int (nth_opt arr 2)) of
        (Some n, Some v_num) \<Rightarrow>
          if check_vertex st v_num then
            (let st1 = st\<lparr>atom_arr := atom_arr st @ [ATOM n v_num]\<rparr> in
             if nth_opt arr 0 = Some ''PATOM'' then
               bind_res (do_patom_props rt cfg arr v_num st1) (\<lambda>_ st2. go (lc\<lparr>seq_no := n\<rparr>) st2)
             else go (lc\<lparr>seq_no := n\<rparr>) st1)
          else SysExit (log_error cfg 569 (log_error cfg 568 (log_error cfg 567 (log_error cfg 566 st))))
      | _ \<Rightarrow> restore_seq cfg lc st)"

definition do_vrtx ::
  "'f runtime \<Rightarrow> config \<Rightarrow> string list \<Rightarrow> locals \<Rightarrow> 'f vessel \<Rightarrow> (ctl \<times> locals, 'f vessel) res" where
  "do_vrtx rt cfg arr lc0 st =
     (let lc = lc0\<lparr>seq_no_prev := seq_no lc0\<rparr> in
      case (opt_int (nth_opt arr 1), nth_opt arr 2, nth_opt arr 3, nth_opt arr 4) of
        (Some n, Some x_str, Some y_str, Some z_str) \<Rightarrow>
          bind_res (parse_XYZ_float rt cfg x_str y_str z_str True True st)
            (\<lambda>r st1.
               (let st2 = log_debug cfg 586 st1 in
                case r of
                  None \<Rightarrow> go (lc\<lparr>seq_no := n\<rparr>) st2
                | Some (x_flt, y_flt, z0) \<Rightarrow>
                   (let z_flt = (if invert_zaxis st2 then fl_neg rt z0 else z0);
                        st3 = st2\<lparr>vrtx_arr := vrtx_arr st2 @ [VRTX n (x_flt, y_flt, z_flt)]\<rparr>
                    in if nth_opt arr 0 = Some ''PVRTX'' then
                         bind_res (parse_props rt cfg arr (length (vrtx_arr st2), (x_flt, y_flt, z_flt)) False st3)
                           (\<lambda>_ st4. go (lc\<lparr>seq_no := n\<rparr>) st4)
                       else go (lc\<lparr>seq_no := n\<rparr>) st3)))
      | _ \<Rightarrow> restore_seq cfg lc st)"

definition do_trgl ::
  "config \<Rightarrow> string list \<Rightarrow> locals \<Rightarrow> 'f vessel \<Rightarrow> (ctl \<times> locals, 'f vessel) res" where
  "do_trgl cfg arr lc0 st =
     (let lc = lc0\<lparr>seq_no_prev := seq_no lc0\<rparr> in
      case (nth_opt arr 1, opt_int (nth_opt arr 1), nth_opt arr 2, nth_opt arr 3) of
        (Some a_str, Some n, Some b_str, Some c_str) \<Rightarrow>
          bind_res (parse_XYZ_int cfg a_str b_str c_str st)
            (\<lambda>r st1.
               case r of
                 None \<Rightarrow> go (lc\<lparr>seq_no := n\<rparr>) st1
               | Some abc \<Rightarrow> go (lc\<lparr>seq_no := n\<rparr>) (st1\<lparr>trgl_arr := trgl_arr st1 @ [TRGL n abc]\<rparr>))
      | _ \<Rightarrow> restore_seq cfg lc st)"

definition do_seg ::
  "config \<Rightarrow> string list \<Rightarrow> locals \<Rightarrow> 'f vessel \<Rightarrow> (ctl \<times> locals, 'f vessel) res" where
  "do_seg cfg arr lc st =
     (case (opt_int (nth_opt arr 1), opt_int (nth_opt arr 2)) of
        (Some a_int, Some b_int) \<Rightarrow>
          go lc (st\<lparr>seg_arr := seg_arr st @ [SEG (seq_no lc) (a_int, b_int)]\<rparr>)
      | _ \<Rightarrow> restore_seq cfg lc st)"

definition do_prop_file ::
  "'f runtime \<Rightarrow> config \<Rightarrow> string \<Rightarrow> string list \<Rightarrow> string list \<Rightarrow> locals \<Rightarrow> 'f vessel
     \<Rightarrow> (ctl \<times> locals, 'f vessel) res" where
  "do_prop_file rt cfg src_dir arr arr_raw lc st =
     (case (nth_opt arr_raw 2, nth_opt arr 1) of
        (Some f, Some k) \<Rightarrow>
          bind_res (with_prop k (\<lambda>prop_obj. prop_obj\<lparr>file_name := path_join rt src_dir f\<rparr>) st)
            (\<lambda>_ st'. go lc (log_debug cfg 628 st'))
      | _ \<Rightarrow> Raised IndexError st)"

definition do_prop_esize ::
  "config \<Rightarrow> string list \<Rightarrow> locals \<Rightarrow> 'f vessel \<Rightarrow> (ctl \<times> locals, 'f vessel) res" where
  "do_prop_esize cfg arr lc st =
     (case (opt_int (nth_opt arr 2), nth_opt arr 1) of
        (Some n, Some k) \<Rightarrow>
          bind_res (with_prop k (\<lambda>prop_obj. prop_obj\<lparr>data_sz := n\<rparr>) st)
            (\<lambda>_ st'. go lc (log_debug cfg 634 st'))
      | _ \<Rightarrow> bind_res (handle_exc cfg st) (\<lambda>_ st'. go lc st'))"

definition do_prop_storage_type ::
  "config \<Rightarrow> string list \<Rightarrow> locals \<Rightarrow> 'f vessel \<Rightarrow> (ctl \<times> locals, 'f vessel) res" where
  "do_prop_storage_type cfg arr lc st =
     (case (nth_opt arr 2, nth_opt arr 1) of
        (Some t2, Some k) \<Rightarrow>
          if t2 = ''OCTET'' then
            bind_res (with_prop k (\<lambda>prop_obj. prop_obj\<lparr>data_type := ''b''\<rparr>) st)
              (\<lambda>_ st'. go lc (log_debug cfg 647 st'))
          else if t2 = ''SHORT'' then
            bind_res (with_prop k (\<lambda>prop_obj. prop_obj\<lparr>data_type := ''h''\<rparr>) st)
              (\<lambda>_ st'. go lc (log_debug cfg 647 st'))
          else SysExit (log_error cfg 645 st)
      | _ \<Rightarrow> Raised IndexError st)"

definition do_prop_signed ::
  "config \<Rightarrow> string list \<Rightarrow> locals \<Rightarrow> 'f vessel \<Rightarrow> (ctl \<times> locals, 'f vessel) res" where
  "do_prop_signed cfg arr lc st =
     (case (nth_opt arr 2, nth_opt arr 1) of
        (Some t2, Some k) \<Rightarrow>
          bind_res (with_prop k (\<lambda>prop_obj. prop_obj\<lparr>signed_int := (t2 = ''1'')\<rparr>) st)
            (\<lambda>_ st'. go lc (log_debug cfg 652 st'))
      | _ \<Rightarrow> Raised IndexError st)"

definition do_prop_must_be ::
  "config \<Rightarrow> string \<Rightarrow> nat \<Rightarrow> string list \<Rightarrow> locals \<Rightarrow> 'f vessel \<Rightarrow> (ctl \<times> locals, 'f vessel) res" where
  "do_prop_must_be cfg expected lno arr lc st =
     (case nth_opt arr 2 of
        None \<Rightarrow> Raised IndexError st
      | Some t2 \<Rightarrow> if t2 \<noteq> expected then SysExit (log_error cfg lno st) else go lc st)"

text \<open>
  The branches \<^verbatim>\<open>PROP_ETYPE\<close> (the third token must be \<^verbatim>\<open>IEEE\<close>, error logged at line
  657) and \<^verbatim>\<open>PROP_EFORMAT\<close> (\<^verbatim>\<open>RAW\<close>, line 663).
\<close>

definition do_prop_offset ::
  "config \<Rightarrow> string list \<Rightarrow> locals \<Rightarrow> 'f vessel \<Rightarrow> (ctl \<times> locals, 'f vessel) res" where
  "do_prop_offset cfg arr lc st =
     (case nth_opt arr 2 of
        None \<Rightarrow> Raised IndexError st
      | Some t2 \<Rightarrow>
         (case py_int t2 of
            None \<Rightarrow> Raised ValueError st
          | Some n \<Rightarrow> if n \<noteq> 0 then SysExit (log_error cfg 669 st) else go lc st))"

definition do_prop_no_data_value ::
  "'f runtime \<Rightarrow> config \<Rightarrow> string list \<Rightarrow> locals \<Rightarrow> 'f vessel \<Rightarrow> (ctl \<times> locals, 'f vessel) res" where
  "do_prop_no_data_value rt cfg arr lc st =
     (case (nth_opt arr 2, nth_opt arr 1) of
        (Some t2, Some k) \<Rightarrow>
          bind_res (parse_float rt cfg t2 None st)
            (\<lambda>(converted, fp) st1.
               if converted then
                 bind_res (with_prop k (\<lambda>prop_obj. prop_obj\<lparr>no_data_marker := Some fp\<rparr>) st1)
                   (\<lambda>_ st2. go lc (log_debug cfg 677 st2))
               else go lc st1)
      | _ \<Rightarrow> Raised IndexError st)"

definition do_axis_float ::
  "'f runtime \<Rightarrow> config \<Rightarrow> bool \<Rightarrow> ('f \<times> 'f \<times> 'f \<Rightarrow> 'f vessel \<Rightarrow> 'f vessel) \<Rightarrow> nat \<Rightarrow> string list
     \<Rightarrow> locals \<Rightarrow> 'f vessel \<Rightarrow> (ctl \<times> locals, 'f vessel) res" where
  "do_axis_float rt cfg convert assign lno arr lc st =
     (case (nth_opt arr 1, nth_opt arr 2, nth_opt arr 3) of
        (Some x_str, Some y_str, Some z_str) \<Rightarrow>
          bind_res (parse_XYZ_float rt cfg x_str y_str z_str False convert st)
            (\<lambda>r st1.
               case r of
                 None \<Rightarrow> go lc st1
               | Some p \<Rightarrow> go lc (log_debug cfg lno (assign p st1)))
      | _ \<Rightarrow> Raised IndexError st)"

definition do_axis_n ::
  "config \<Rightarrow> string list \<Rightarrow> locals \<Rightarrow> 'f vessel \<Rightarrow> (ctl \<times> locals, 'f vessel) res" where
  "do_axis_n cfg arr lc st =
     (case (nth_opt arr 1, nth_opt arr 2, nth_opt arr 3) of
        (Some x_str, Some y_str, Some z_str) \<Rightarrow>
          bind_res (parse_XYZ_int cfg x_str y_str z_str st)
            (\<lambda>r st1.
               case r of
                 None \<Rightarrow> go lc st1
               | Some p \<Rightarrow> go lc (log_debug cfg 708 (st1\<lparr>vol_dims := Some p\<rparr>)))
      | _ \<Rightarrow> Raised IndexError st)"

definition do_flags_int ::
  "config \<Rightarrow> (int \<Rightarrow> 'f vessel \<Rightarrow> 'f vessel) \<Rightarrow> nat \<Rightarrow> string list \<Rightarrow> locals \<Rightarrow> 'f vessel
     \<Rightarrow> (ctl \<times> locals, 'f vessel) res" where
  "do_flags_int cfg assign lno arr lc st =
     (case nth_opt arr 1 of
        None \<Rightarrow> Raised IndexError st
      | Some t \<Rightarrow>
         bind_res (parse_int cfg t st)
           (\<lambda>r st1.
              case r of
                None \<Rightarrow> go lc st1
              | Some l \<Rightarrow> go lc (log_debug cfg lno (assign l st1))))"

definition do_flags_file ::
  "'f runtime \<Rightarrow> config \<Rightarrow> string \<Rightarrow> string list \<Rightarrow> locals \<Rightarrow> 'f vessel
     \<Rightarrow> (ctl \<times> locals, 'f vessel) res" where
  "do_flags_file rt cfg src_dir arr_raw lc st =
     (case nth_opt arr_raw 1 of
        None \<Rightarrow> Raised IndexError st
      | Some f \<Rightarrow> go lc (log_debug cfg 748 (st\<lparr>flags_file := path_join rt src_dir f\<rparr>)))"

definition do_region ::
  "config \<Rightarrow> string list \<Rightarrow> locals \<Rightarrow> 'f vessel \<Rightarrow> (ctl \<times> locals, 'f vessel) res" where
  "do_region cfg arr lc st =
     (case (nth_opt arr 1, nth_opt arr 2) of
        (Some nm, Some bit_no) \<Rightarrow>
          go lc (log_debug cfg 752 (st\<lparr>region_dict := AList.update bit_no nm (region_dict st)\<rparr>))
      | _ \<Rightarrow> Raised IndexError st)"

section \<open>One line, and the loop over the lines\<close>

definition exec_branch ::
  "'f runtime \<Rightarrow> config \<Rightarrow> string \<Rightarrow> string \<Rightarrow> branch \<Rightarrow> string \<Rightarrow> string list \<Rightarrow> string list
     \<Rightarrow> locals \<Rightarrow> 'f vessel \<Rightarrow> (ctl \<times> locals, 'f vessel) res" where
  "exec_branch rt cfg src_dir fileExt b line_str arr arr_raw lc st =
     (case b of
        B_first \<Rightarrow> do_first cfg fileExt line_str lc st
      | B_subset \<Rightarrow> go lc (log_debug cfg 385 st)
      | B_cnp \<Rightarrow> go lc (log_debug cfg 390 st)
      | B_coord_begin \<Rightarrow> go (lc\<lparr>inCoord := True\<rparr>) (log_debug cfg 396 st)
      | B_coord_end \<Rightarrow> go (lc\<lparr>inCoord := False\<rparr>) (log_debug cfg 401 st)
      | B_coord_name \<Rightarrow> do_coord_name cfg arr lc st
      | B_zpositive \<Rightarrow> go lc (log_debug cfg 420 (st\<lparr>invert_zaxis := True\<rparr>))
      | B_header \<Rightarrow> go (lc\<lparr>inHeader := True\<rparr>) (log_debug cfg 425 st)
      | B_property_class_header \<Rightarrow> do_property_class_header cfg arr lc st
      | B_header_end \<Rightarrow> go (lc\<lparr>inHeader := False\<rparr>) (log_debug cfg 447 st)
      | B_in_prop_class_header \<Rightarrow> do_in_prop_class_header rt cfg arr line_str lc st
      | B_in_local_prop_class_header \<Rightarrow> do_in_local_prop_class_header rt cfg arr line_str lc st
      | B_in_header \<Rightarrow> do_in_header rt cfg line_str lc st
      | B_axis_unit \<Rightarrow> bind_res (axis_unit_loop rt cfg arr [0, 1, 2] st) (\<lambda>_ st'. go lc st')
      | B_properties \<Rightarrow> do_properties cfg 518 arr lc st
      | B_property_classes \<Rightarrow> do_properties cfg 525 arr lc st
      | B_esizes \<Rightarrow>
          bind_res (esizes_loop cfg arr (map fst (local_props st)) 1 st)
            (\<lambda>_ st'. go lc (log_debug cfg 537 st'))
      | B_no_data_values \<Rightarrow>
          bind_res (no_data_loop rt cfg arr (map fst (local_props st)) 1 st)
            (\<lambda>_ st'. go lc (log_debug cfg 551 st'))
      | B_atom \<Rightarrow> do_atom rt cfg arr lc st
      | B_vrtx \<Rightarrow> do_vrtx rt cfg arr lc st
      | B_trgl \<Rightarrow> do_trgl cfg arr lc st
      | B_seg \<Rightarrow> do_seg cfg arr lc st
      | B_prop_file \<Rightarrow> do_prop_file rt cfg src_dir arr arr_raw lc st
      | B_prop_esize \<Rightarrow> do_prop_esize cfg arr lc st
      | B_prop_storage_type \<Rightarrow> do_prop_storage_type cfg arr lc st
      | B_prop_signed \<Rightarrow> do_prop_signed cfg arr lc st
      | B_prop_etype \<Rightarrow> do_prop_must_be cfg ''IEEE'' 657 arr lc st
      | B_prop_eformat \<Rightarrow> do_prop_must_be cfg ''RAW'' 663 arr lc st
      | B_prop_offset \<Rightarrow> do_prop_offset cfg arr lc st
      | B_prop_no_data_value \<Rightarrow> do_prop_no_data_value rt cfg arr lc st
      | B_axis_o \<Rightarrow> do_axis_float rt cfg True (\<lambda>p s. s\<lparr>axis_origin := Some p\<rparr>) 684 arr lc st
      | B_axis_u \<Rightarrow> do_axis_float rt cfg False (\<lambda>p s. s\<lparr>axis_u := Some p\<rparr>) 690 arr lc st
      | B_axis_v \<Rightarrow> do_axis_float rt cfg False (\<lambda>p s. s\<lparr>axis_v := Some p\<rparr>) 696 arr lc st
      | B_axis_w \<Rightarrow> do_axis_float rt cfg False (\<lambda>p s. s\<lparr>axis_w := Some p\<rparr>) 702 arr lc st
      | B_axis_n \<Rightarrow> do_axis_n cfg arr lc st
      | B_axis_min \<Rightarrow> do_axis_float rt cfg False (\<lambda>p s. s\<lparr>axis_min := Some p\<rparr>) 714 arr lc st
      | B_axis_max \<Rightarrow> do_axis_float rt cfg False (\<lambda>p s. s\<lparr>axis_max := Some p\<rparr>) 720 arr lc st
      | B_flags_array_length \<Rightarrow> do_flags_int cfg (\<lambda>l s. s\<lparr>flags_array_length := l\<rparr>) 726 arr lc st
      | B_flags_bit_length \<Rightarrow> do_flags_int cfg (\<lambda>l s. s\<lparr>flags_bit_length := l\<rparr>) 732 arr lc st
      | B_flags_esize \<Rightarrow> do_flags_int cfg (\<lambda>l s. s\<lparr>flags_bit_size := l\<rparr>) 738 arr lc st
      | B_flags_offset \<Rightarrow> do_flags_int cfg (\<lambda>l s. s\<lparr>flags_offset := l\<rparr>) 744 arr lc st
      | B_flags_file \<Rightarrow> do_flags_file rt cfg src_dir arr_raw lc st
      | B_region \<Rightarrow> do_region cfg arr lc st
      | B_none \<Rightarrow> go lc st)"

definition line_text :: "string \<Rightarrow> string" where
  "line_text line = dequote (py_upper (py_rstrip (one_of [CHR 0x20, CHR 0x0A, CHR 0x0D]) line))"

definition tokens :: "string \<Rightarrow> string list" where
  "tokens line = py_split (line_text line)"

definition raw_tokens :: "string \<Rightarrow> string list" where
  "raw_tokens line = py_split (py_rstrip (one_of [CHR 0x20, CHR 0x0A, CHR 0x0D]) line)"

text \<open>
  \<^verbatim>\<open>line_str\<close>, \<^verbatim>\<open>splitstr_arr\<close> and \<^verbatim>\<open>splitstr_arr_raw\<close> of a line of the file.
\<close>

definition step ::
  "'f runtime \<Rightarrow> config \<Rightarrow> string \<Rightarrow> string \<Rightarrow> string \<Rightarrow> locals \<Rightarrow> 'f vessel
     \<Rightarrow> (ctl \<times> locals, 'f vessel) res" where
  "step rt cfg src_dir fileExt line lc st =
     (case tokens line of
        [] \<Rightarrow> go lc st
      | t0 # ts \<Rightarrow>
         (case dispatch lc t0 ts of
            Inl e \<Rightarrow> Raised e (log_debug cfg 372 st)
          | Inr b \<Rightarrow>
             exec_branch rt cfg src_dir fileExt b (line_text line) (t0 # ts) (raw_tokens line) lc
               (log_debug cfg 372 st)))"

text \<open>The body of the loop of \<^verbatim>\<open>process_gocad\<close> for one line of the file.\<close>

fun run_lines ::
  "'f runtime \<Rightarrow> config \<Rightarrow> string \<Rightarrow> string \<Rightarrow> string list \<Rightarrow> locals \<Rightarrow> 'f vessel
     \<Rightarrow> (ctl \<times> locals, 'f vessel) res" where
  "run_lines rt cfg src_dir fileExt [] lc st = Ok (Continue, lc) st"
| "run_lines rt cfg src_dir fileExt (line # file_lines) lc st =
     (case step rt cfg src_dir fileExt line lc st of
        Ok (Continue, lc') st' \<Rightarrow> run_lines rt cfg src_dir fileExt file_lines lc' st'
      | r \<Rightarrow> r)"

text \<open>
  The loop: it ends with \<open>Continue\<close> when the lines are used up, with \<open>Return b\<close> when a
  line makes \<^verbatim>\<open>process_gocad\<close> return \<open>b\<close>, and otherwise with the exit or the exception
  of the line that stopped it.
\<close>

section \<open>Statistics of the point properties\<close>

definition first_val :: "'f pval \<Rightarrow> 'f" where
  "first_val v = (case v of Scalar x \<Rightarrow> x | Vec3 x y z \<Rightarrow> x)"

fun py_max :: "'f runtime \<Rightarrow> 'f \<Rightarrow> 'f list \<Rightarrow> 'f" where
  "py_max rt m [] = m"
| "py_max rt m (x # xs) = py_max rt (if fl_less rt m x then x else m) xs"

fun py_min :: "'f runtime \<Rightarrow> 'f \<Rightarrow> 'f list \<Rightarrow> 'f" where
  "py_min rt m [] = m"
| "py_min rt m (x # xs) = py_min rt (if fl_less rt x m then x else m) xs"

text \<open>
  \<^verbatim>\<open>max\<close> and \<^verbatim>\<open>min\<close> of a non-empty list, from its first element on: a later element
  replaces the current one when it is greater, or less.
\<close>

definition point_stats :: "'f runtime \<Rightarrow> ('f coord \<times> 'f pval) list \<Rightarrow> 'f \<times> 'f" where
  "point_stats rt d =
     (case map (\<lambda>kv. first_val (snd kv)) d of
        [] \<Rightarrow> (float_info_max rt, fl_neg rt (float_info_max rt))
      | v # vs \<Rightarrow> (py_min rt v vs, py_max rt v vs))"

text \<open>
  The pair (min, max) that \<^verbatim>\<open>process_gocad\<close> computes over the values of a property's
  dict, a 3-float value counting with its first component.
\<close>

fun stats_loop :: "'f runtime \<Rightarrow> string list \<Rightarrow> 'f vessel \<Rightarrow> (unit, 'f vessel) res" where
  "stats_loop rt [] st = Ok () st"
| "stats_loop rt (k # ks) st =
     (case map_of (local_props st) k of
        None \<Rightarrow> Raised KeyError st
      | Some prop_obj \<Rightarrow>
         (case data prop_obj of
            PointData d \<Rightarrow>
              stats_loop rt ks
                (st\<lparr>local_props :=
                      AList.update k (prop_obj\<lparr>data_stats := Some (point_stats rt d)\<rparr>) (local_props st)\<rparr>)
          | VoxelData shape cells \<Rightarrow> Raised AttributeError st))"

section \<open>The binary files of a voxel volume\<close>

definition make_numpy_dtype :: "'f PROPS \<Rightarrow> string" where
  "make_numpy_dtype prop_obj =
     (if data_type prop_obj = ''h'' \<or> data_type prop_obj = ''b'' then
        (if \<not> signed_int prop_obj then ''>'' @ py_upper (data_type prop_obj)
         else ''>'' @ data_type prop_obj)
      else ''>'' @ data_type prop_obj @ py_str (data_sz prop_obj))"

definition vo_name :: "'f runtime \<Rightarrow> string \<Rightarrow> string" where
  "vo_name rt fname =
     (if file_bytes rt fname = None \<and> drop (length fname - 2) fname = ''@@''
         \<and> file_bytes rt (fname @ ''.vo'') \<noteq> None
      then fname @ ''.vo'' else fname)"

text \<open>
  The file name after the test that opens both parts of \<^verbatim>\<open>__read_voxel_files\<close>: a name
  that is no file and ends in \<^verbatim>\<open>@@\<close> gets \<^verbatim>\<open>.vo\<close> appended when that is a file.
\<close>

definition cells_of :: "int \<times> int \<times> int \<Rightarrow> (nat \<times> nat \<times> nat) list" where
  "cells_of dims =
     (case dims of
        (d0, d1, d2) \<Rightarrow>
          concat (map (\<lambda>z. concat (map (\<lambda>y. map (\<lambda>x. (x, y, z)) [0..<nat d0]) [0..<nat d1])) [0..<nat d2]))"

text \<open>
  The cells in the order of the three nested loops, \<^verbatim>\<open>z\<close> outermost and \<^verbatim>\<open>x\<close>
  innermost; a \<^verbatim>\<open>range\<close> of a number below 1 is empty.
\<close>

definition voxel_pos :: "'f runtime \<Rightarrow> 'f vessel \<Rightarrow> nat \<times> nat \<times> nat \<Rightarrow> ('f \<times> 'f \<times> 'f) option" where
  "voxel_pos rt st c =
     (case (axis_origin st, vol_dims st, axis_u st, axis_v st, axis_w st) of
        (Some (ox, oy, oz), Some (d0, d1, d2), Some (ux, uy, uz), Some (vx, vy, vz), Some (wx, wy, wz)) \<Rightarrow>
          (case c of
             (x, y, z) \<Rightarrow>
               Some (fl_add rt ox (fl_mul rt (fl_div rt (fl_of_int rt (int x)) (fl_of_int rt d0)) ux),
                     fl_add rt oy (fl_mul rt (fl_div rt (fl_of_int rt (int y)) (fl_of_int rt d1)) vy),
                     fl_add rt oz (fl_mul rt (fl_div rt (fl_of_int rt (int z)) (fl_of_int rt d2)) wz)))
      | _ \<Rightarrow> None)"

text \<open>
  The arguments of \<^verbatim>\<open>_calc_minmax\<close> for a cell; \<open>None\<close> stands for the \<^verbatim>\<open>TypeError\<close> of
  subscripting an axis attribute that is still \<^verbatim>\<open>None\<close>.
\<close>

definition store_voxel :: "'f runtime \<Rightarrow> nat \<times> nat \<times> nat \<Rightarrow> 'f \<Rightarrow> 'f PROPS \<Rightarrow> 'f PROPS" where
  "store_voxel rt c fp prop_obj =
     (case data prop_obj of
        VoxelData shape cells \<Rightarrow>
          (let (mn, mx) = (case data_stats prop_obj of
                             Some s \<Rightarrow> s
                           | None \<Rightarrow> (float_info_max rt, fl_neg rt (float_info_max rt)));
               mx' = (if fl_less rt mx fp then fp else mx);
               mn' = (if fl_less rt fp mn then fp else mn)
           in prop_obj\<lparr>data := VoxelData shape (AList.update c fp cells), data_stats := Some (mn', mx')\<rparr>)
      | PointData d \<Rightarrow> prop_obj)"

text \<open>
  \<^verbatim>\<open>prop_obj.data[x][y][z] = fp\<close> and the two updates of \<^verbatim>\<open>data_stats\<close>. The loop runs
  after \<^verbatim>\<open>data\<close> became an array and \<^verbatim>\<open>data_stats\<close> got its two keys.
\<close>

fun voxel_loop ::
  "'f runtime \<Rightarrow> config \<Rightarrow> string \<Rightarrow> (nat \<times> nat \<times> nat) list \<Rightarrow> 'f list \<Rightarrow> 'f vessel
     \<Rightarrow> (unit, 'f vessel) res" where
  "voxel_loop rt cfg k [] f_arr st = Ok () st"
| "voxel_loop rt cfg k (c # cs) [] st = Raised IndexError st"
| "voxel_loop rt cfg k (c # cs) (v # vs) st =
     (case map_of (prop_dict st) k of
        None \<Rightarrow> Raised KeyError st
      | Some prop_obj \<Rightarrow>
         bind_res (parse_float_num rt cfg v (no_data_marker prop_obj) st)
           (\<lambda>(converted, fp) st1.
              if \<not> converted then voxel_loop rt cfg k cs vs st1
              else
                (let st2 = st1\<lparr>prop_dict := AList.update k (store_voxel rt c fp prop_obj) (prop_dict st1)\<rparr>
                 in case voxel_pos rt st2 c of
                      None \<Rightarrow> Raised TypeError st2
                    | Some p \<Rightarrow> voxel_loop rt cfg k cs vs (calc_minmax p st2))))"

text \<open>
  The three nested loops over a property file: \<open>f_arr\<close> is what is left of the array from
  \<^verbatim>\<open>fl_idx\<close> on, and reading past its end raises.
\<close>

definition read_prop_file :: "'f runtime \<Rightarrow> config \<Rightarrow> string \<Rightarrow> 'f vessel \<Rightarrow> (unit, 'f vessel) res" where
  "read_prop_file rt cfg k st0 =
     (case map_of (prop_dict st0) k of
        None \<Rightarrow> Raised KeyError st0
      | Some prop_obj0 \<Rightarrow>
         (let prop_obj = prop_obj0\<lparr>file_name := vo_name rt (file_name prop_obj0)\<rparr>;
              st = st0\<lparr>prop_dict := AList.update k prop_obj (prop_dict st0)\<rparr>
          in case file_bytes rt (file_name prop_obj) of
               None \<Rightarrow> SysExit (log_error cfg 889 st)
             | Some bytes \<Rightarrow>
                (case vol_dims st of
                   None \<Rightarrow> Raised TypeError st
                 | Some (d0, d1, d2) \<Rightarrow>
                    if int (length bytes) \<noteq> data_sz prop_obj * d0 * d1 * d2 then
                      SysExit (log_error cfg 858 st)
                    else if d0 < 0 \<or> d1 < 0 \<or> d2 < 0 then Raised ValueError st
                    else
                      (let prop_obj1 = prop_obj\<lparr>data := VoxelData (d0, d1, d2) []\<rparr>;
                           st1 = st\<lparr>prop_dict := AList.update k prop_obj1 (prop_dict st)\<rparr>
                       in if \<not> np_dtype_ok rt (make_numpy_dtype prop_obj1) then Raised TypeError st1
                          else
                            (let st2 = log_info cfg 868 st1 in
                             case np_fromfile rt (make_numpy_dtype prop_obj1) bytes of
                               Inl e \<Rightarrow> if e = IOError then SysExit (log_error cfg 889 st2) else Raised e st2
                             | Inr f_arr \<Rightarrow>
                                voxel_loop rt cfg k (cells_of (d0, d1, d2)) f_arr
                                  (st2\<lparr>prop_dict :=
                                         AList.update k
                                           (prop_obj1\<lparr>data_stats :=
                                              Some (float_info_max rt, fl_neg rt (float_info_max rt))\<rparr>)
                                           (prop_dict st2)\<rparr>))))))"

text \<open>
  The body of the loop over \<^verbatim>\<open>self.prop_dict.items()\<close> for the property under key \<open>k\<close>.
  \<^verbatim>\<open>os.path.getsize\<close> of a path that is no file raises \<^verbatim>\<open>OSError\<close>, which the handler
  for \<^verbatim>\<open>IOError\<close> catches; the size test comes before \<^verbatim>\<open>numpy.zeros\<close>, which refuses a
  negative dimension.
\<close>

fun prop_files_loop :: "'f runtime \<Rightarrow> config \<Rightarrow> string list \<Rightarrow> 'f vessel \<Rightarrow> (unit, 'f vessel) res" where
  "prop_files_loop rt cfg [] st = Ok () st"
| "prop_files_loop rt cfg (k # ks) st =
     bind_res (read_prop_file rt cfg k st) (\<lambda>_ st'. prop_files_loop rt cfg ks st')"

definition py_index :: "'a list \<Rightarrow> int \<Rightarrow> 'a option" where
  "py_index xs i =
     (let n = int (length xs); j = (if i < 0 then n + i else i)
      in if 0 \<le> j \<and> j < n then nth_opt xs (nat j) else None)"

text \<open>\<^verbatim>\<open>xs[i]\<close> for any integer: a negative index counts from the end.\<close>

fun chunks :: "nat \<Rightarrow> nat \<Rightarrow> 'a list \<Rightarrow> 'a list list" where
  "chunks n 0 xs = []"
| "chunks n (Suc m) xs = take n xs # chunks n m (drop n xs)"

definition flag_groups :: "nat \<Rightarrow> nat list \<Rightarrow> nat list list" where
  "flag_groups n bytes = chunks n (length bytes div n) bytes"

text \<open>
  \<^verbatim>\<open>numpy.fromfile\<close> with the dtype of \<open>n\<close> unsigned bytes, for \<open>n \<ge> 1\<close>: the whole
  groups of \<open>n\<close> bytes of the file, in order.
\<close>

fun bits_loop ::
  "(string \<times> string) list \<Rightarrow> int \<times> int \<times> int \<Rightarrow> string \<Rightarrow> int
     \<Rightarrow> ((int \<times> int \<times> int) \<times> string) list \<Rightarrow> ((int \<times> int \<times> int) \<times> string) list" where
  "bits_loop rd xyz [] cnt fd = fd"
| "bits_loop rd xyz (b # bit_mask) cnt fd =
     bits_loop rd xyz bit_mask (cnt - 1)
       (case map_of rd (py_str cnt) of
          Some key \<Rightarrow> if b = CHR ''1'' then AList.update xyz key fd else fd
        | None \<Rightarrow> fd)"

text \<open>
  The loop over the characters of \<^verbatim>\<open>bit_mask\<close>, with the counter \<^verbatim>\<open>cnt\<close> that goes
  down: \<open>rd\<close> is \<^verbatim>\<open>self.region_dict\<close> and \<open>fd\<close> is \<^verbatim>\<open>self.flags_dict\<close>.
\<close>

definition make_bit_mask :: "int \<Rightarrow> nat list \<Rightarrow> string" where
  "make_bit_mask flags_bit_size_v grp =
     (if flags_bit_size_v = 1 then format_08b (case grp of [] \<Rightarrow> 0 | b # bs \<Rightarrow> b)
      else concat (map format_08b (rev grp)))"

text \<open>
  The string of bits of one element of the flags array: an element of one byte is a number,
  an element of more bytes is an array that the loop reads from its last byte to its first.
\<close>

fun flags_loop ::
  "nat list list \<Rightarrow> (nat \<times> nat \<times> nat) list \<Rightarrow> int \<Rightarrow> 'f vessel \<Rightarrow> (unit, 'f vessel) res" where
  "flags_loop f_arr [] f_idx st = Ok () st"
| "flags_loop f_arr ((x, y, z) # cs) f_idx st =
     (case py_index f_arr f_idx of
        None \<Rightarrow> Raised IndexError st
      | Some grp \<Rightarrow>
         flags_loop f_arr cs (f_idx + 1)
           (st\<lparr>flags_dict :=
                 bits_loop (region_dict st) (int x, int y, int z)
                   (make_bit_mask (flags_bit_size st) grp) (flags_bit_size st * 8 - 1) (flags_dict st)\<rparr>))"

definition read_flags_file :: "'f runtime \<Rightarrow> config \<Rightarrow> 'f vessel \<Rightarrow> (bool, 'f vessel) res" where
  "read_flags_file rt cfg st0 =
     (case vol_dims st0 of
        None \<Rightarrow> Raised TypeError st0
      | Some (d0, d1, d2) \<Rightarrow>
         if flags_array_length st0 \<noteq> d0 * d1 * d2 then
           Ok False (log_debug cfg 897 (log_warning cfg 896 st0))
         else
           (let st = st0\<lparr>flags_file := vo_name rt (flags_file st0)\<rparr> in
            case file_bytes rt (flags_file st) of
              None \<Rightarrow> Ok False (log_debug cfg 948 (log_error cfg 947 st))
            | Some bytes \<Rightarrow>
               if int (length bytes) \<noteq> flags_bit_size st * d0 * d1 * d2 then
                 SysExit (log_error cfg 909 st)
               else if d0 < 0 \<or> d1 < 0 \<or> d2 < 0 then Raised ValueError st
               else if flags_bit_size st < 1 then Raised ValueError st
               else
                 bind_res
                   (flags_loop (flag_groups (nat (flags_bit_size st)) bytes) (cells_of (d0, d1, d2))
                      (flags_offset st) (log_info cfg 919 st))
                   (\<lambda>_ st'. Ok True st')))"

text \<open>
  The part of \<^verbatim>\<open>__read_voxel_files\<close> under \<^verbatim>\<open>if self.flags_file != ''\<close>, up to the point
  where it returns \<^verbatim>\<open>False\<close> or falls through to the end of the function (\<open>Ok True\<close>). A
  declared length that differs from the number of cells, and a path that is no file, make the
  function return \<^verbatim>\<open>False\<close>; a file of the wrong size ends the process. An element size
  below 1 is taken to be refused by \<^verbatim>\<open>numpy\<close>.
\<close>

definition read_voxel_files :: "'f runtime \<Rightarrow> config \<Rightarrow> 'f vessel \<Rightarrow> (bool, 'f vessel) res" where
  "read_voxel_files rt cfg st =
     bind_res
       (if is_vo st \<and> prop_dict st \<noteq> [] then
          bind_res (prop_files_loop rt cfg (map fst (prop_dict st)) st)
            (\<lambda>_ st1. if flags_file st1 \<noteq> '''' then read_flags_file rt cfg st1 else Ok True st1)
        else Ok True st)
       (\<lambda>ok st2. if ok then Ok True (log_debug cfg 950 st2) else Ok False st2)"

section \<open>The parser\<close>

definition process_gocad ::
  "'f runtime \<Rightarrow> config \<Rightarrow> string \<Rightarrow> string \<Rightarrow> string list \<Rightarrow> 'f vessel \<Rightarrow> (bool, 'f vessel) res" where
  "process_gocad rt cfg src_dir filename_str file_lines st0 =
     (case path_splitext rt filename_str of
        (fileName, fileExt) \<Rightarrow>
          (let st = (log_debug cfg 332 st0)\<lparr>np_filename := path_basename rt fileName\<rparr> in
           bind_res (run_lines rt cfg src_dir fileExt file_lines init_locals st)
             (\<lambda>(c, lc) st1.
                case c of
                  Return b \<Rightarrow> Ok b st1
                | Continue \<Rightarrow>
                   bind_res (stats_loop rt (map fst (local_props st1)) (log_debug cfg 756 st1))
                     (\<lambda>_ st2. read_voxel_files rt cfg (log_debug cfg 767 st2)))))"

text \<open>
  \<^verbatim>\<open>process_gocad(src_dir, filename_str, file_lines)\<close> on a vessel: \<open>Ok b\<close> is the value it
  returns, \<open>SysExit\<close> the end of the process by \<^verbatim>\<open>sys.exit(1)\<close>, and \<open>Raised\<close> an exception
  that leaves the function.
\<close>

section \<open>A runtime to evaluate the parser on\<close>

definition dec_float :: "string \<Rightarrow> rat option" where
  "dec_float s =
     (let t = py_strip is_space s;
          neg = (take 1 t = ''-'');
          u = (if take 1 t = ''-'' \<or> take 1 t = ''+'' then drop 1 t else t)
      in case py_partition (CHR ''.'') u of
           (ip, dot, fp) \<Rightarrow>
             (case (if ip = [] then Some 0 else py_digits 10 ip,
                    if fp = [] then Some 0 else py_digits 10 fp) of
                (Some a, Some b) \<Rightarrow>
                  if ip = [] \<and> fp = [] then None
                  else Some ((if neg then - 1 else 1)
                             * (of_int a + of_int b / 10 ^ length (filter (\<lambda>c. c \<noteq> CHR ''_'') fp)))
              | _ \<Rightarrow> None))"

definition posix_join :: "string \<Rightarrow> string \<Rightarrow> string" where
  "posix_join a b =
     (if take 1 b = ''/'' then b
      else if a = [] \<or> drop (length a - 1) a = ''/'' then a @ b
      else a @ ''/'' @ b)"

definition posix_basename :: "string \<Rightarrow> string" where
  "posix_basename p = rev (takeWhile (\<lambda>c. c \<noteq> CHR ''/'') (rev p))"

definition posix_splitext :: "string \<Rightarrow> string \<times> string" where
  "posix_splitext p =
     (let base = posix_basename p;
          ext = rev (takeWhile (\<lambda>c. c \<noteq> CHR ''.'') (rev base));
          stem = take (length base - length ext - 1) base
      in if length ext < length base \<and> filter (\<lambda>c. c \<noteq> CHR ''.'') stem \<noteq> []
         then (take (length p - length ext - 1) p, CHR ''.'' # ext)
         else (p, []))"

definition double_max :: rat where
  "double_max =
     179769313486231570814527423731704356798070567525844996598917476803157260780028538760589558632766878171540458953514382464234321326889464182768467546703537516986049910576551282076245490090389328944075868508455133942304583236903222948165808559332123348274797826204144723168738177180919299881250404026184124858368"

text \<open>The largest finite IEEE double, \<open>(2\<^sup>5\<^sup>3 - 1) \<times> 2\<^sup>9\<^sup>7\<^sup>1\<close>, in decimal.\<close>

definition test_rt :: "(string \<times> nat list) list \<Rightarrow> rat runtime" where
  "test_rt files =
     \<lparr> py_float = dec_float,
       float_info_max = double_max,
       fl_of_int = of_int,
       fl_neg = uminus,
       fl_add = (+),
       fl_mul = (*),
       fl_div = (/),
       fl_eq = (=),
       fl_less = (<),
       path_splitext = posix_splitext,
       path_basename = posix_basename,
       path_join = posix_join,
       file_bytes = map_of files,
       np_dtype_ok = (\<lambda>dt. dt \<in> set [''>B'', ''>b'', ''>H'', ''>h'', ''>f4'', ''>f8'']),
       np_fromfile = (\<lambda>dt bytes. if dt = ''>B'' then Inr (map of_nat bytes) else Inl TypeError) \<rparr>"

text \<open>
  A runtime for the closed examples below. Its floats are rational numbers with exact
  arithmetic, \<^verbatim>\<open>float\<close> reads a plain decimal literal, the paths are POSIX paths, the file
  system holds the listed files, and \<^verbatim>\<open>numpy.fromfile\<close> is given for unsigned bytes only.
  On the inputs of the examples (small integers and the dyadic fraction 0.5) it computes what
  CPython computes.
\<close>

definition default_config :: config where
  "default_config = \<lparr> STOP_ON_EXC = True, log_level = 20, nondefault_coords = False \<rparr>"



definition inf_value :: "'f runtime \<Rightarrow> string \<Rightarrow> 'f option" where
  "inf_value rt tok =
     (if tok \<in> set [''1.#INF'', ''INF''] then Some (float_info_max rt)
      else if tok \<in> set [''-1.#INF'', ''-INF''] then Some (fl_neg rt (float_info_max rt))
      else None)"

text \<open>
  The value \<^verbatim>\<open>__parse_float\<close> takes for a spelling of infinity, and \<open>None\<close> for every
  other token.
\<close>

definition converts :: "'f runtime \<Rightarrow> string \<Rightarrow> 'f \<Rightarrow> 'f \<Rightarrow> bool" where
  "converts rt tok m v =
     (inf_value rt tok = Some v
      \<or> (inf_value rt tok = None \<and> py_float rt tok = Some v \<and> \<not> fl_eq rt v m))"

text \<open>
  A token \<open>converts\<close> to \<open>v\<close> under the no-data marker \<open>m\<close> when it is a spelling of
  infinity with the value \<open>v\<close>, or \<^verbatim>\<open>float\<close> converts it to \<open>v\<close> and \<open>v\<close> is not
  \<^verbatim>\<open>==\<close> to \<open>m\<close>.
\<close>

fun col_of :: "string list \<Rightarrow> (string \<times> 'f PROPS) list \<Rightarrow> nat \<Rightarrow> string \<Rightarrow> nat option" where
  "col_of arr [] col k = None"
| "col_of arr ((k', prop_obj) # ps) col k =
     (if k' = k then Some col else col_of arr ps (skip_cn arr col + nat (data_sz prop_obj)) k)"




text \<open>
  The number that the claim C9 gives for the running counter after the lines of a file: the
  sequence number of the most recent line that carries one, and \<open>k\<close> when no line does. The
  loop body is run only to know the loop state in which each line is read.
\<close>

definition vo_lines :: "string list" where
  "vo_lines =
     [''GOCAD Voxet 1'', ''AXIS_O 0 0 0'', ''AXIS_U 1 0 0'', ''AXIS_V 0 1 0'', ''AXIS_W 0 0 1'',
      ''AXIS_N 2 1 1'', ''PROPERTY_CLASS_HEADER 1 p {'', ''}'', ''PROP_FILE 1 f'', ''PROP_ESIZE 1 1'',
      ''PROP_STORAGE_TYPE 1 Octet'', ''FLAGS_ARRAY_LENGTH 2'', ''FLAGS_ESIZE 1'', ''FLAGS_FILE g'',
      ''REGION Shale 3'']"

definition vo_prop :: "rat PROPS" where
  "vo_prop = (new_PROPS ''P'')\<lparr>file_name := ''f'', data_sz := 1, data_type := ''b''\<rparr>"

definition voxet :: "rat vessel" where
  "voxet = (new_vessel (test_rt []) (1, 1, 1, 1))
     \<lparr>prop_dict := [(''1'', vo_prop)], is_vo := True,
      axis_origin := Some (0, 0, 0), axis_u := Some (1, 0, 0), axis_v := Some (0, 1, 0),
      axis_w := Some (0, 0, 1), vol_dims := Some (2, 1, 1),
      flags_array_length := 2, flags_bit_size := 1, flags_file := ''g'',
      region_dict := [(''3'', ''SHALE'')], np_filename := ''a''\<rparr>"

text \<open>
  The lines of a voxel volume \<^verbatim>\<open>a.vo\<close> of two cells, with one property of one unsigned
  byte a cell in the file \<^verbatim>\<open>f\<close>, and a flags file \<^verbatim>\<open>g\<close> of one byte a cell with the
  region of bit 3; the property and the vessel after these lines.
\<close>

definition example_prop :: "int \<Rightarrow> rat option \<Rightarrow> rat PROPS" where
  "example_prop sz marker = (new_PROPS ''P'')\<lparr>data_sz := sz, no_data_marker := marker\<rparr>"

definition example_vessel :: "rat PROPS \<Rightarrow> rat vessel" where
  "example_vessel prop_obj = (new_vessel (test_rt []) (1, 1, 1, 1))\<lparr>local_props := [(''P'', prop_obj)]\<rparr>"

text \<open>
  A point property named \<^verbatim>\<open>P\<close> with a given \<^verbatim>\<open>data_sz\<close> and no-data marker and no
  data yet, and a fresh vessel that has it as its only point property.
\<close>

definition atom_exit :: "config \<Rightarrow> 'f vessel \<Rightarrow> 'f vessel" where
  "atom_exit cfg st =
     log_error cfg 569 (log_error cfg 568 (log_error cfg 567 (log_error cfg 566 (log_debug cfg 372 st))))"

text \<open>
  The state at the \<^verbatim>\<open>sys.exit(1)\<close> of the atom branch: the four error records, after the
  debug record of the line.
\<close>

definition one_vertex :: "rat vessel" where
  "one_vertex = (new_vessel (test_rt []) (1, 1, 1, 1))
     \<lparr>is_vs := True, np_filename := ''a'', vrtx_arr := [VRTX 1 (0, 0, 0)], minmax_calls := [(0, 0, 0)]\<rparr>"

definition after_vertex :: locals where
  "after_vertex = init_locals\<lparr>firstLine := False, seq_no := 1, seq_no_prev := 0\<rparr>"

text \<open>
  The vessel and the loop state after the two lines \<^verbatim>\<open>GOCAD VSet 1\<close> and
  \<^verbatim>\<open>VRTX 1 0 0 0\<close> of a file \<^verbatim>\<open>a.vs\<close>.
\<close>

definition marker_file :: "string \<Rightarrow> string list" where
  "marker_file tok =
     [''GOCAD VSet 1'', ''PROPERTIES P'', ''ESIZES 1'', ''NO_DATA_VALUES '' @ tok,
      ''PVRTX 1 0 0 0 '' @ tok, ''PVRTX 2 1 1 1 5'']"

text \<open>
  The lines of a point set with one property \<^verbatim>\<open>P\<close> of one float, whose no-data marker
  is the token \<open>tok\<close>: the first vertex carries the very token of the marker, the second
  the value 5.
\<close>

definition two_points :: "rat PROPS \<Rightarrow> rat vessel" where
  "two_points prop_obj = (example_vessel prop_obj)
     \<lparr>is_vs := True, np_filename := ''a'', vrtx_arr := [VRTX 1 (0, 0, 0), VRTX 2 (1, 1, 1)],
      minmax_calls := [(0, 0, 0), (1, 1, 1)]\<rparr>"

text \<open>
  The vessel after the two vertices of \<open>marker_file\<close>, read from \<^verbatim>\<open>a.vs\<close>, with the
  property \<^verbatim>\<open>P\<close> as given.
\<close>

definition patom_file :: "string list" where
  "patom_file =
     [''GOCAD VSet 1'', ''PROPERTIES P'', ''ESIZES 1'', ''VRTX 1 0 0 0'', ''VRTX 2 1 1 1'',
      ''PATOM 3 1 5'']"

text \<open>
  The lines of a point set with one property \<^verbatim>\<open>P\<close> of one float and two vertices; the
  atom 3 refers to the vertex 1, which is at (0, 0, 0), and carries the value 5.
\<close>

definition patom_last_file :: "string list" where
  "patom_last_file =
     [''GOCAD VSet 1'', ''PROPERTIES P'', ''ESIZES 1'', ''VRTX 1 0 0 0'', ''PATOM 2 1 5'']"









text \<open>
  The first lines of a line set \<^verbatim>\<open>a.pl\<close> with the vertices 7 and 9, the vessel the loop
  starts on, and the loop state and the vessel after these lines.
\<close>

definition size_exit :: "'f runtime \<Rightarrow> config \<Rightarrow> string \<Rightarrow> 'f PROPS \<Rightarrow> 'f vessel \<Rightarrow> 'f vessel" where
  "size_exit rt cfg k prop_obj st =
     log_error cfg 858
       (st\<lparr>prop_dict :=
            AList.update k (prop_obj\<lparr>file_name := vo_name rt (file_name prop_obj)\<rparr>) (prop_dict st)\<rparr>)"

text \<open>
  The state at the \<^verbatim>\<open>sys.exit(1)\<close> of the size test of a property file: the file name
  may have got its \<^verbatim>\<open>.vo\<close>, and the error is logged.
\<close>

section \<open>Auxiliary facts\<close>

lemma nth_opt_numeral [simp]:
  "nth_opt (x # xs) (numeral k) = nth_opt xs (pred_numeral k)"
  by (simp add: numeral_eq_Suc)

lemma handle_exc_Ok: "handle_exc cfg st = Ok u st' \<Longrightarrow> st' = st"
  by (auto simp: handle_exc_def split: if_splits)

lemma bind_res_Ok:
  "bind_res r f = Ok v s \<Longrightarrow> \<exists>a s1. r = Ok a s1 \<and> f a s1 = Ok v s"
  by (cases r) auto

lemma parse_float_Ok:
  "parse_float rt cfg tok nv st = Ok r st' \<Longrightarrow> st' = log_debug cfg 1011 st"
  by (auto simp: parse_float_def Let_def split: if_splits option.splits dest!: bind_res_Ok handle_exc_Ok)

lemma parse_float_inf:
  "inf_value rt tok = Some v \<Longrightarrow> parse_float rt cfg tok nv st = Ok (True, v) (log_debug cfg 1011 st)"
  by (auto simp: inf_value_def parse_float_def Let_def split: if_splits)

lemma parse_float_ordinary:
  "inf_value rt tok = None \<Longrightarrow> py_float rt tok = Some fp \<Longrightarrow>
     parse_float rt cfg tok (Some m) st
       = (if fl_eq rt fp m then Ok (False, m) (log_debug cfg 1011 st)
          else Ok (True, fp) (log_debug cfg 1011 st))"
  by (auto simp: inf_value_def parse_float_def Let_def split: if_splits)

lemma parse_float_converts:
  "converts rt tok m v \<Longrightarrow> parse_float rt cfg tok (Some m) st = Ok (True, v) (log_debug cfg 1011 st)"
  unfolding converts_def using parse_float_inf parse_float_ordinary by fastforce

lemma local_props_log_debug [simp]: "local_props (log_debug cfg n st) = local_props st"
  by (simp add: log_debug_def emit_def)

lemma skip_cn_some: "nth_opt arr (skip_cn arr col) = Some tok \<Longrightarrow> nth_opt arr col \<noteq> None"
  by (auto simp: skip_cn_def split: option.splits)

lemma parse_prop_Ok:
  assumes "parse_prop rt cfg arr key col p st = Ok (col', p') st'"
  shows "col' = skip_cn arr col + nat (data_sz p) \<and> local_props st' = local_props st"
  using assms
  by (auto simp: parse_prop_def Let_def split: if_splits option.splits sum.splits prod.splits
           dest!: bind_res_Ok parse_float_Ok)

lemma parse_prop_stores1:
  assumes "data_sz p = 1" "no_data_marker p = Some m" "data p = PointData d"
    and "nth_opt arr (skip_cn arr col) = Some tok" "converts rt tok m v"
  shows "parse_prop rt cfg arr key col p st
           = Ok (skip_cn arr col + 1, p\<lparr>data := PointData (dict_set (key_eq rt) key (Scalar v) d)\<rparr>)
                (log_debug cfg 980 (log_debug cfg 1011 st))"
proof -
  from skip_cn_some[OF assms(4)] obtain t0 where "nth_opt arr col = Some t0" by auto
  then show ?thesis
    using assms by (simp add: parse_prop_def parse_float_converts set_point_def)
qed

lemma parse_prop_stores3:
  assumes "data_sz p = 3" "no_data_marker p = Some m" "data p = PointData d"
    and "nth_opt arr (skip_cn arr col) = Some tx" "nth_opt arr (skip_cn arr col + 1) = Some ty"
    and "nth_opt arr (skip_cn arr col + 2) = Some tz"
    and "converts rt tx m vx" "converts rt ty m vy" "converts rt tz m vz"
  shows "parse_prop rt cfg arr key col p st
           = Ok (skip_cn arr col + 3, p\<lparr>data := PointData (dict_set (key_eq rt) key (Vec3 vx vy vz) d)\<rparr>)
                (log_debug cfg 996 (log_debug cfg 1011 (log_debug cfg 1011 (log_debug cfg 1011 st))))"
proof -
  from skip_cn_some[OF assms(4)] obtain t0 where "nth_opt arr col = Some t0" by auto
  then show ?thesis
    using assms by (simp add: parse_prop_def parse_float_converts set_point_def)
qed

lemma parse_props_loop_frame:
  "parse_props_loop rt cfg arr key ks col st = Ok () st' \<Longrightarrow> k \<notin> set ks \<Longrightarrow>
     map_of (local_props st') k = map_of (local_props st) k"
proof (induction ks arbitrary: col st)
  case Nil
  then show ?case by simp
next
  case (Cons k0 ks)
  from Cons.prems(1) obtain p0 where p0: "map_of (local_props st) k0 = Some p0"
    by (auto split: option.splits)
  with Cons.prems(1) obtain c1 p1 s1 where
    pp: "parse_prop rt cfg arr key col p0 st = Ok (c1, p1) s1"
    and rest: "parse_props_loop rt cfg arr key ks c1
                 (s1\<lparr>local_props := AList.update k0 p1 (local_props s1)\<rparr>) = Ok () st'"
    by (auto dest!: bind_res_Ok)
  from parse_prop_Ok[OF pp] have lp: "local_props s1 = local_props st" by simp
  from Cons.prems(2) have "k \<noteq> k0" "k \<notin> set ks" by auto
  with Cons.IH[OF rest] lp show ?case by (simp add: update_conv')
qed

lemma parse_props_loop_at:
  assumes "parse_props_loop rt cfg arr key (map fst qs) col st = Ok () st'"
    and "distinct (map fst qs)"
    and "\<And>k p. (k, p) \<in> set qs \<Longrightarrow> map_of (local_props st) k = Some p"
    and "col_of arr qs col k = Some c"
  shows "\<exists>p p' st1 st2. map_of qs k = Some p
           \<and> parse_prop rt cfg arr key c p st1 = Ok (skip_cn arr c + nat (data_sz p), p') st2
           \<and> map_of (local_props st') k = Some p'"
  using assms
proof (induction qs arbitrary: col st)
  case Nil
  then show ?case by simp
next
  case (Cons q qs)
  obtain k0 p0 where q: "q = (k0, p0)" by (cases q)
  have p0: "map_of (local_props st) k0 = Some p0" using Cons.prems(3)[of k0 p0] q by simp
  with Cons.prems(1) q obtain c1 p1 s1 where
    pp: "parse_prop rt cfg arr key col p0 st = Ok (c1, p1) s1"
    and rest: "parse_props_loop rt cfg arr key (map fst qs) c1
                 (s1\<lparr>local_props := AList.update k0 p1 (local_props s1)\<rparr>) = Ok () st'"
    by (auto dest!: bind_res_Ok)
  from parse_prop_Ok[OF pp] have c1: "c1 = skip_cn arr col + nat (data_sz p0)"
    and lp: "local_props s1 = local_props st" by simp_all
  from Cons.prems(2) q have nin: "k0 \<notin> set (map fst qs)" and dq: "distinct (map fst qs)" by auto
  show ?case
  proof (cases "k0 = k")
    case True
    with Cons.prems(4) q have "c = col" by simp
    moreover from parse_props_loop_frame[OF rest] nin True
    have "map_of (local_props st') k = Some p1" by (simp add: update_conv')
    ultimately show ?thesis using pp c1 q True by auto
  next
    case False
    with Cons.prems(4) q c1 have co: "col_of arr qs c1 k = Some c" by simp
    have inv: "\<And>k' p. (k', p) \<in> set qs \<Longrightarrow>
        map_of (local_props (s1\<lparr>local_props := AList.update k0 p1 (local_props s1)\<rparr>)) k' = Some p"
    proof -
      fix k' p assume m: "(k', p) \<in> set qs"
      then have "k' \<noteq> k0" using nin by force
      moreover have "map_of (local_props st) k' = Some p" using Cons.prems(3)[of k' p] m by simp
      ultimately show "map_of (local_props (s1\<lparr>local_props := AList.update k0 p1 (local_props s1)\<rparr>)) k' = Some p"
        using lp by (simp add: update_conv')
    qed
    from Cons.IH[OF rest dq inv co] False q show ?thesis by auto
  qed
qed

lemma run_lines_append:
  "run_lines rt cfg src_dir fileExt (xs @ ys) lc st =
     (case run_lines rt cfg src_dir fileExt xs lc st of
        Ok (Continue, lc') st' \<Rightarrow> run_lines rt cfg src_dir fileExt ys lc' st'
      | r \<Rightarrow> r)"
  by (induction xs arbitrary: lc st) (auto split: res.splits ctl.splits prod.splits)

lemma run_lines_stops:
  assumes "run_lines rt cfg src_dir fileExt pre lc0 st0 = Ok (Continue, lc) st"
    and "step rt cfg src_dir fileExt line lc st = SysExit st'"
  shows "run_lines rt cfg src_dir fileExt (pre @ line # post) lc0 st0 = SysExit st'"
  using assms by (simp add: run_lines_append)

lemma process_gocad_stops:
  assumes "path_splitext rt filename_str = (fileName, fileExt)"
    and "run_lines rt cfg src_dir fileExt pre init_locals
           ((log_debug cfg 332 st0)\<lparr>np_filename := path_basename rt fileName\<rparr>) = Ok (Continue, lc) st"
    and "step rt cfg src_dir fileExt line lc st = SysExit st'"
  shows "process_gocad rt cfg src_dir filename_str (pre @ line # post) st0 = SysExit st'"
  using assms(1) run_lines_stops[OF assms(2,3)] by (simp add: process_gocad_def)

lemma keyword_branch_atom: "keyword_branch ''ATOM'' = B_atom" "keyword_branch ''PATOM'' = B_atom"
  by (simp_all add: keyword_branch_def)

lemma dispatch_atom:
  assumes "\<not> firstLine lc" "\<not> inHeader lc" "\<not> inPropClassHeader lc" "\<not> inLocalPropClassHeader lc"
    and "kw = ''ATOM'' \<or> kw = ''PATOM''"
  shows "dispatch lc kw ts = Inr B_atom"
  using assms(5)
proof
  assume "kw = ''ATOM''"
  then show ?thesis using assms(1-4) by (simp add: dispatch_def keyword_branch_atom)
next
  assume "kw = ''PATOM''"
  then show ?thesis using assms(1-4) by (simp add: dispatch_def keyword_branch_atom)
qed

lemma log_debug_fields [simp]:
  "vrtx_arr (log_debug cfg n st) = vrtx_arr st"
  "atom_arr (log_debug cfg n st) = atom_arr st"
  "seg_arr (log_debug cfg n st) = seg_arr st"
  "rgba_tup (log_debug cfg n st) = rgba_tup st"
  by (simp_all add: log_debug_def emit_def)

lemma check_vertex_log_debug [simp]: "check_vertex (log_debug cfg n st) v = check_vertex st v"
  by (simp add: check_vertex_def)









lemma bind_seq:
  assumes "bind_res r f = Ok (c, lc') st'"
    and "\<And>a s. f a s = Ok (c, lc') st' \<Longrightarrow> seq_no lc' = seq_no lc"
  shows "seq_no lc' = seq_no lc"
  using assms by (cases r) simp_all


























lemma prop_files_loop_append:
  "prop_files_loop rt cfg (ks1 @ ks2) st
     = bind_res (prop_files_loop rt cfg ks1 st) (\<lambda>_ st'. prop_files_loop rt cfg ks2 st')"
proof (induction ks1 arbitrary: st)
  case Nil
  show ?case by simp
next
  case (Cons k ks1)
  show ?case by (cases "read_prop_file rt cfg k st") (simp_all add: Cons.IH)
qed

lemma prop_files_loop_stops:
  assumes "prop_files_loop rt cfg before st0 = Ok () st"
    and "read_prop_file rt cfg k st = SysExit st'"
  shows "prop_files_loop rt cfg (before @ k # after) st0 = SysExit st'"
  using assms by (simp add: prop_files_loop_append)

lemma read_voxel_files_stops:
  assumes "is_vo st0" and "map fst (prop_dict st0) = before @ k # after"
    and "prop_files_loop rt cfg before st0 = Ok () st"
    and "read_prop_file rt cfg k st = SysExit st'"
  shows "read_voxel_files rt cfg st0 = SysExit st'"
proof -
  from assms(2) have ne: "prop_dict st0 \<noteq> []" by auto
  from prop_files_loop_stops[OF assms(3,4)] assms(2)
  have "prop_files_loop rt cfg (map fst (prop_dict st0)) st0 = SysExit st'" by simp
  with assms(1) ne show ?thesis by (simp add: read_voxel_files_def)
qed

lemma process_gocad_voxel_files:
  assumes "path_splitext rt filename_str = (fileName, fileExt)"
    and "run_lines rt cfg src_dir fileExt file_lines init_locals
           ((log_debug cfg 332 start)\<lparr>np_filename := path_basename rt fileName\<rparr>) = Ok (Continue, lc) st1"
    and "stats_loop rt (map fst (local_props st1)) (log_debug cfg 756 st1) = Ok () st2"
  shows "process_gocad rt cfg src_dir filename_str file_lines start
     = read_voxel_files rt cfg (log_debug cfg 767 st2)"
  using assms by (simp add: process_gocad_def)

section \<open>The claims\<close>

text \<open>
  C8. The float scanner maps the tokens \<^verbatim>\<open>1.#INF\<close> and \<^verbatim>\<open>INF\<close> to the same value,
  \<^verbatim>\<open>sys.float_info.max\<close>, the largest finite float and not an infinity, and maps
  \<^verbatim>\<open>-1.#INF\<close> and \<^verbatim>\<open>-INF\<close> to its negation: whatever the no-data value passed, the
  configuration and the state of the parser, and so in every context that calls the scanner.
  The scan succeeds and changes nothing but the log.
\<close>

theorem parse_float_infinity_tokens:
  "parse_float rt cfg ''1.#INF'' null_val st = Ok (True, float_info_max rt) (log_debug cfg 1011 st)
   \<and> parse_float rt cfg ''INF'' null_val st = Ok (True, float_info_max rt) (log_debug cfg 1011 st)
   \<and> parse_float rt cfg ''-1.#INF'' null_val st
       = Ok (True, fl_neg rt (float_info_max rt)) (log_debug cfg 1011 st)
   \<and> parse_float rt cfg ''-INF'' null_val st
       = Ok (True, fl_neg rt (float_info_max rt)) (log_debug cfg 1011 st)"
  by (simp add: parse_float_def Let_def)

text \<open>
  C10. The infinity tokens bypass the no-data test of the float scanner. Whatever the
  no-data marker \<open>m\<close> is, the scanner succeeds on \<^verbatim>\<open>1.#INF\<close> and \<^verbatim>\<open>INF\<close> with
  \<^verbatim>\<open>sys.float_info.max\<close>, and on \<^verbatim>\<open>-1.#INF\<close> and \<^verbatim>\<open>-INF\<close> with its negation,
  and never looks at \<open>m\<close>; the test \<^verbatim>\<open>==\<close> against \<open>m\<close> is made for a token that
  \<^verbatim>\<open>float\<close> converts, and only there. So in every call of \<^verbatim>\<open>__parse_props\<close> that
  returns, a property of one float whose token converts has this value stored under the
  coordinate, and a property of three floats whose three tokens convert has the triple
  stored, where an infinity token converts under every marker: also when \<open>m\<close> is the
  sentinel itself. The column \<open>col\<close> is where the loop reaches the property.
\<close>

theorem infinity_tokens_bypass_no_data_test:
  "(inf_value rt tok = Some v \<longrightarrow>
      parse_float rt cfg tok (Some m) st = Ok (True, v) (log_debug cfg 1011 st) \<and> converts rt tok m v)
   \<and> (inf_value rt tok = None \<longrightarrow> py_float rt tok = Some fp \<longrightarrow>
        parse_float rt cfg tok (Some m) st
          = (if fl_eq rt fp m then Ok (False, m) (log_debug cfg 1011 st)
             else Ok (True, fp) (log_debug cfg 1011 st)))
   \<and> (parse_props rt cfg arr key is_patom st = Ok () st' \<longrightarrow>
        distinct (map fst (local_props st)) \<longrightarrow>
        col_of arr (local_props st) (if is_patom then 3 else 5) k = Some col \<longrightarrow>
        map_of (local_props st) k = Some prop_obj \<longrightarrow>
        no_data_marker prop_obj = Some m \<longrightarrow> data prop_obj = PointData d \<longrightarrow>
        (data_sz prop_obj = 1 \<longrightarrow> nth_opt arr (skip_cn arr col) = Some tok \<longrightarrow> converts rt tok m v \<longrightarrow>
           map_of (local_props st') k
             = Some (prop_obj\<lparr>data := PointData (dict_set (key_eq rt) key (Scalar v) d)\<rparr>))
        \<and> (data_sz prop_obj = 3 \<longrightarrow>
             nth_opt arr (skip_cn arr col) = Some tx \<longrightarrow> nth_opt arr (skip_cn arr col + 1) = Some ty \<longrightarrow>
             nth_opt arr (skip_cn arr col + 2) = Some tz \<longrightarrow>
             converts rt tx m vx \<longrightarrow> converts rt ty m vy \<longrightarrow> converts rt tz m vz \<longrightarrow>
             map_of (local_props st') k
               = Some (prop_obj\<lparr>data := PointData (dict_set (key_eq rt) key (Vec3 vx vy vz) d)\<rparr>)))"
proof (intro conjI impI)
  assume "inf_value rt tok = Some v"
  then show "parse_float rt cfg tok (Some m) st = Ok (True, v) (log_debug cfg 1011 st)"
    by (rule parse_float_inf)
next
  assume "inf_value rt tok = Some v"
  then show "converts rt tok m v" by (simp add: converts_def)
next
  assume "inf_value rt tok = None" and "py_float rt tok = Some fp"
  then show "parse_float rt cfg tok (Some m) st
          = (if fl_eq rt fp m then Ok (False, m) (log_debug cfg 1011 st)
             else Ok (True, fp) (log_debug cfg 1011 st))"
    by (rule parse_float_ordinary)
next
  assume run: "parse_props rt cfg arr key is_patom st = Ok () st'"
    and dist: "distinct (map fst (local_props st))"
    and co: "col_of arr (local_props st) (if is_patom then 3 else 5) k = Some col"
    and mp: "map_of (local_props st) k = Some prop_obj"
    and mk: "no_data_marker prop_obj = Some m" and dt: "data prop_obj = PointData d"
    and sz: "data_sz prop_obj = 1"
    and tk: "nth_opt arr (skip_cn arr col) = Some tok" and cv: "converts rt tok m v"
  from run have lp: "parse_props_loop rt cfg arr key (map fst (local_props st))
      (if is_patom then 3 else 5) st = Ok () st'"
    by (simp add: parse_props_def)
  have inv: "\<And>k p. (k, p) \<in> set (local_props st) \<Longrightarrow> map_of (local_props st) k = Some p"
    using dist by simp
  from parse_props_loop_at[OF lp dist inv co] mp obtain p' st1 st2 where
    pp: "parse_prop rt cfg arr key col prop_obj st1 = Ok (skip_cn arr col + nat (data_sz prop_obj), p') st2"
    and fin: "map_of (local_props st') k = Some p'"
    by auto
  from pp parse_prop_stores1[OF sz mk dt tk cv, of cfg key st1]
  have "p' = prop_obj\<lparr>data := PointData (dict_set (key_eq rt) key (Scalar v) d)\<rparr>" by simp
  with fin show "map_of (local_props st') k
             = Some (prop_obj\<lparr>data := PointData (dict_set (key_eq rt) key (Scalar v) d)\<rparr>)"
    by simp
next
  assume run: "parse_props rt cfg arr key is_patom st = Ok () st'"
    and dist: "distinct (map fst (local_props st))"
    and co: "col_of arr (local_props st) (if is_patom then 3 else 5) k = Some col"
    and mp: "map_of (local_props st) k = Some prop_obj"
    and mk: "no_data_marker prop_obj = Some m" and dt: "data prop_obj = PointData d"
    and sz: "data_sz prop_obj = 3"
    and tk: "nth_opt arr (skip_cn arr col) = Some tx" "nth_opt arr (skip_cn arr col + 1) = Some ty"
      "nth_opt arr (skip_cn arr col + 2) = Some tz"
    and cv: "converts rt tx m vx" "converts rt ty m vy" "converts rt tz m vz"
  from run have lp: "parse_props_loop rt cfg arr key (map fst (local_props st))
      (if is_patom then 3 else 5) st = Ok () st'"
    by (simp add: parse_props_def)
  have inv: "\<And>k p. (k, p) \<in> set (local_props st) \<Longrightarrow> map_of (local_props st) k = Some p"
    using dist by simp
  from parse_props_loop_at[OF lp dist inv co] mp obtain p' st1 st2 where
    pp: "parse_prop rt cfg arr key col prop_obj st1 = Ok (skip_cn arr col + nat (data_sz prop_obj), p') st2"
    and fin: "map_of (local_props st') k = Some p'"
    by auto
  from pp parse_prop_stores3[OF sz mk dt tk cv, of cfg key st1]
  have "p' = prop_obj\<lparr>data := PointData (dict_set (key_eq rt) key (Vec3 vx vy vz) d)\<rparr>" by simp
  with fin show "map_of (local_props st') k
               = Some (prop_obj\<lparr>data := PointData (dict_set (key_eq rt) key (Vec3 vx vy vz) d)\<rparr>)"
    by simp
qed

theorem infinity_tokens_bypass_no_data_test_witness:
  "parse_float (test_rt []) default_config ''INF'' (Some double_max) (example_vessel (example_prop 3 (Some double_max)))
     = Ok (True, double_max) (example_vessel (example_prop 3 (Some double_max)))
   \<and> parse_float (test_rt []) default_config ''5.0'' (Some 5) (example_vessel (example_prop 3 (Some double_max)))
     = Ok (False, 5) (example_vessel (example_prop 3 (Some double_max)))
   \<and> parse_props (test_rt []) default_config [''PVRTX'', ''1'', ''0'', ''0'', ''0'', ''INF'', ''1'', ''-INF'']
        (0, (0, 0, 0)) False (example_vessel (example_prop 3 (Some double_max)))
     = Ok () (example_vessel ((example_prop 3 (Some double_max))
                \<lparr>data := PointData [((0, (0, 0, 0)), Vec3 double_max 1 (- double_max))]\<rparr>))
   \<and> map_of (local_props (example_vessel ((example_prop 3 (Some double_max))
                \<lparr>data := PointData [((0, (0, 0, 0)), Vec3 double_max 1 (- double_max))]\<rparr>))) ''P''
     = Some ((example_prop 3 (Some double_max))
                \<lparr>data := PointData [((0, (0, 0, 0)), Vec3 double_max 1 (- double_max))]\<rparr>)"
proof -
  let ?rt = "test_rt [] :: rat runtime"
  let ?p = "example_prop 3 (Some double_max)"
  let ?st = "example_vessel ?p"
  let ?arr = "[''PVRTX'', ''1'', ''0'', ''0'', ''0'', ''INF'', ''1'', ''-INF'']"
  let ?p' = "?p\<lparr>data := PointData [((0, (0, 0, 0)), Vec3 double_max 1 (- double_max))]\<rparr>"
  have lg: "\<And>n s. log_debug default_config n s = s"
    by (simp add: log_debug_def default_config_def)
  have iv: "inf_value ?rt ''INF'' = Some double_max" by (simp add: inf_value_def test_rt_def)
  have ivn: "inf_value ?rt ''-INF'' = Some (- double_max)" by (simp add: inf_value_def test_rt_def)
  have iv5: "inf_value ?rt ''5.0'' = None" by (simp add: inf_value_def)
  have f5: "py_float ?rt ''5.0'' = Some 5" by code_simp
  have c1: "converts ?rt ''1'' double_max 1" by code_simp
  have run: "parse_props ?rt default_config ?arr (0, (0, 0, 0)) False ?st = Ok () (example_vessel ?p')"
    by code_simp
  have dist: "distinct (map fst (local_props ?st))" by (simp add: example_vessel_def)
  have co: "col_of ?arr (local_props ?st) (if False then 3 else 5) ''P'' = Some 5"
    by (simp add: example_vessel_def)
  have mp: "map_of (local_props ?st) ''P'' = Some ?p" by (simp add: example_vessel_def)
  have mk: "no_data_marker ?p = Some double_max" by (simp add: example_prop_def)
  have dt: "data ?p = PointData []" by (simp add: example_prop_def new_PROPS_def)
  have sz: "data_sz ?p = 3" by (simp add: example_prop_def)
  have sk: "skip_cn ?arr 5 = 5" by code_simp
  have tk: "nth_opt ?arr 5 = Some ''INF''" "nth_opt ?arr 6 = Some ''1''" "nth_opt ?arr 7 = Some ''-INF''"
    by simp_all
  note T = infinity_tokens_bypass_no_data_test[where rt = ?rt and cfg = default_config
      and m = double_max and st = ?st and st' = "example_vessel ?p'" and arr = ?arr
      and key = "(0, (0, 0, 0))" and is_patom = False and k = "''P''" and col = 5 and prop_obj = ?p
      and d = "[]" and tx = "''INF''" and ty = "''1''" and tz = "''-INF''"
      and vx = double_max and vy = 1 and vz = "- double_max"]
  from T[where tok = "''INF''" and v = double_max] iv
  have a: "parse_float ?rt default_config ''INF'' (Some double_max) ?st = Ok (True, double_max) ?st"
    and cx: "converts ?rt ''INF'' double_max double_max"
    by (simp_all add: lg)
  from infinity_tokens_bypass_no_data_test[where rt = ?rt and tok = "''-INF''" and v = "- double_max"
      and m = double_max] ivn
  have cz: "converts ?rt ''-INF'' double_max (- double_max)" by simp
  from infinity_tokens_bypass_no_data_test[where rt = ?rt and tok = "''5.0''" and fp = 5 and m = 5
      and cfg = default_config and st = ?st] iv5 f5
  have b: "parse_float ?rt default_config ''5.0'' (Some 5) ?st = Ok (False, 5) ?st"
    by (simp add: lg test_rt_def)
  from T run dist co mp mk dt sz sk tk cx c1 cz
  have c: "map_of (local_props (example_vessel ?p')) ''P'' = Some ?p'"
    by (simp add: test_rt_def)
  from a b run c show ?thesis by simp
qed

text \<open>
  C3. Take a line that reaches the atom branch (the first line is done and no header is
  open) with the keyword \<^verbatim>\<open>ATOM\<close> or \<^verbatim>\<open>PATOM\<close>, whose two numbers convert. If no
  vertex with the referenced sequence number has been stored in this parse, the line ends
  the process with \<^verbatim>\<open>sys.exit(1)\<close>, and so does \<^verbatim>\<open>process_gocad\<close> on every file that
  reaches the line in this state. If such a vertex is stored and the keyword is
  \<^verbatim>\<open>ATOM\<close>, the line succeeds: it appends the atom record of its sequence number and the
  vertex's sequence number, which stands for the vertex's position, and changes nothing else
  in the stores.
\<close>

theorem atom_needs_seen_vertex:
  assumes "\<not> firstLine lc" "\<not> inHeader lc" "\<not> inPropClassHeader lc" "\<not> inLocalPropClassHeader lc"
    and "tokens line = kw # s1 # s2 # others"
    and "kw = ''ATOM'' \<or> kw = ''PATOM''"
    and "py_int s1 = Some n" and "py_int s2 = Some v_num"
  shows "(\<not> check_vertex st v_num \<longrightarrow>
            step rt cfg src_dir fileExt line lc st = SysExit (atom_exit cfg st)
          \<and> (path_splitext rt filename_str = (fileName, fileExt) \<longrightarrow>
              run_lines rt cfg src_dir fileExt pre init_locals
                ((log_debug cfg 332 start)\<lparr>np_filename := path_basename rt fileName\<rparr>) = Ok (Continue, lc) st \<longrightarrow>
              process_gocad rt cfg src_dir filename_str (pre @ line # post) start = SysExit (atom_exit cfg st)))
       \<and> (kw = ''ATOM'' \<longrightarrow> check_vertex st v_num \<longrightarrow>
            step rt cfg src_dir fileExt line lc st
              = Ok (Continue, lc\<lparr>seq_no_prev := seq_no lc, seq_no := n\<rparr>)
                   ((log_debug cfg 372 st)\<lparr>atom_arr := atom_arr st @ [ATOM n v_num]\<rparr>))"
proof -
  have d: "dispatch lc kw (s1 # s2 # others) = Inr B_atom"
    using assms(1-4,6) by (rule dispatch_atom)
  have s: "step rt cfg src_dir fileExt line lc st
      = do_atom rt cfg (kw # s1 # s2 # others) lc (log_debug cfg 372 st)"
    using assms(5) d by (simp add: step_def exec_branch_def)
  have ex: "\<not> check_vertex st v_num \<Longrightarrow>
      step rt cfg src_dir fileExt line lc st = SysExit (atom_exit cfg st)"
    using assms(7,8) by (simp add: s do_atom_def opt_int_def atom_exit_def Let_def)
  have okk: "kw = ''ATOM'' \<Longrightarrow> check_vertex st v_num \<Longrightarrow>
      step rt cfg src_dir fileExt line lc st
        = Ok (Continue, lc\<lparr>seq_no_prev := seq_no lc, seq_no := n\<rparr>)
             ((log_debug cfg 372 st)\<lparr>atom_arr := atom_arr st @ [ATOM n v_num]\<rparr>)"
    using assms(7,8)
    by (simp add: s do_atom_def opt_int_def Let_def go_def)
  show ?thesis
  proof (intro conjI impI)
    assume "\<not> check_vertex st v_num"
    then show "step rt cfg src_dir fileExt line lc st = SysExit (atom_exit cfg st)" by (rule ex)
  next
    assume nv: "\<not> check_vertex st v_num"
      and p: "path_splitext rt filename_str = (fileName, fileExt)"
      and r: "run_lines rt cfg src_dir fileExt pre init_locals
                ((log_debug cfg 332 start)\<lparr>np_filename := path_basename rt fileName\<rparr>) = Ok (Continue, lc) st"
    show "process_gocad rt cfg src_dir filename_str (pre @ line # post) start = SysExit (atom_exit cfg st)"
      by (rule process_gocad_stops[OF p r ex[OF nv]])
  next
    assume "kw = ''ATOM''" and "check_vertex st v_num"
    then show "step rt cfg src_dir fileExt line lc st
              = Ok (Continue, lc\<lparr>seq_no_prev := seq_no lc, seq_no := n\<rparr>)
                   ((log_debug cfg 372 st)\<lparr>atom_arr := atom_arr st @ [ATOM n v_num]\<rparr>)"
      by (rule okk)
  qed
qed

theorem atom_needs_seen_vertex_witness:
  "process_gocad (test_rt []) default_config '''' ''a.vs''
      ([''GOCAD VSet 1'', ''VRTX 1 0 0 0''] @ ''PATOM 2 5 7'' # [''VRTX 5 1 1 1''])
      (new_vessel (test_rt []) (1, 1, 1, 1))
     = SysExit (one_vertex\<lparr>out := [LogError 566, LogError 567, LogError 568, LogError 569]\<rparr>)
   \<and> step (test_rt []) default_config '''' ''.vs'' ''ATOM 2 1'' after_vertex one_vertex
     = Ok (Continue, after_vertex\<lparr>seq_no_prev := 1, seq_no := 2\<rparr>) (one_vertex\<lparr>atom_arr := [ATOM 2 1]\<rparr>)"
proof -
  let ?rt = "test_rt [] :: rat runtime"
  have f: "\<not> firstLine after_vertex" "\<not> inHeader after_vertex" "\<not> inPropClassHeader after_vertex"
    "\<not> inLocalPropClassHeader after_vertex"
    by (simp_all add: after_vertex_def init_locals_def)
  have t1: "tokens ''PATOM 2 5 7'' = ''PATOM'' # ''2'' # ''5'' # [''7'']" by code_simp
  have t2: "tokens ''ATOM 2 1'' = ''ATOM'' # ''2'' # ''1'' # []" by code_simp
  have i1: "py_int ''1'' = Some 1" and i2: "py_int ''2'' = Some 2" and i5: "py_int ''5'' = Some 5"
    by code_simp+
  have nv: "\<not> check_vertex one_vertex 5" by (simp add: check_vertex_def one_vertex_def)
  have v: "check_vertex one_vertex 1" by (simp add: check_vertex_def one_vertex_def)
  have sp: "path_splitext ?rt ''a.vs'' = (''a'', ''.vs'')" by code_simp
  have lg: "\<And>n s. log_debug default_config n s = s"
    by (simp add: log_debug_def default_config_def)
  have run: "run_lines ?rt default_config '''' ''.vs'' [''GOCAD VSet 1'', ''VRTX 1 0 0 0''] init_locals
      ((log_debug default_config 332 (new_vessel ?rt (1, 1, 1, 1)))\<lparr>np_filename := path_basename ?rt ''a''\<rparr>)
      = Ok (Continue, after_vertex) one_vertex"
    by code_simp
  have ax: "atom_exit default_config one_vertex
      = one_vertex\<lparr>out := [LogError 566, LogError 567, LogError 568, LogError 569]\<rparr>"
    by code_simp
  from atom_needs_seen_vertex[OF f t1 _ i2 i5, where st = one_vertex and rt = ?rt and cfg = default_config
      and src_dir = "''''" and fileExt = "''.vs''" and filename_str = "''a.vs''" and fileName = "''a''"
      and pre = "[''GOCAD VSet 1'', ''VRTX 1 0 0 0'']" and start = "new_vessel ?rt (1, 1, 1, 1)"
      and post = "[''VRTX 5 1 1 1'']"] nv sp run
  have a: "process_gocad ?rt default_config '''' ''a.vs''
      ([''GOCAD VSet 1'', ''VRTX 1 0 0 0''] @ ''PATOM 2 5 7'' # [''VRTX 5 1 1 1''])
      (new_vessel ?rt (1, 1, 1, 1))
     = SysExit (one_vertex\<lparr>out := [LogError 566, LogError 567, LogError 568, LogError 569]\<rparr>)"
    by (simp add: ax)
  from atom_needs_seen_vertex[OF f t2 _ i2 i1, where st = one_vertex and rt = ?rt and cfg = default_config
      and src_dir = "''''" and fileExt = "''.vs''"] v
  have b: "step ?rt default_config '''' ''.vs'' ''ATOM 2 1'' after_vertex one_vertex
     = Ok (Continue, after_vertex\<lparr>seq_no_prev := 1, seq_no := 2\<rparr>) (one_vertex\<lparr>atom_arr := [ATOM 2 1]\<rparr>)"
    by (simp add: lg after_vertex_def init_locals_def one_vertex_def new_vessel_def)
  from a b show ?thesis by simp
qed

text \<open>
  C4. The parser exempts the infinity tokens from the no-data test. With the marker
  \<^verbatim>\<open>-9999.0\<close> the value \<^verbatim>\<open>-9999.0\<close> of the first vertex is left out of the property's
  data, and the minimum and maximum are those of the second vertex alone. With the marker
  \<^verbatim>\<open>INF\<close> the value \<^verbatim>\<open>INF\<close> of the first vertex, the same text as the marker, is
  stored under the vertex as \<^verbatim>\<open>sys.float_info.max\<close>, which is the marker itself, and
  it is the maximum of the property.
\<close>

theorem inf_marker_value_is_stored:
  "process_gocad (test_rt []) default_config '''' ''a.vs'' (marker_file ''-9999.0'')
      (new_vessel (test_rt []) (1, 1, 1, 1))
     = Ok True (two_points ((example_prop 1 (Some (- 9999)))
         \<lparr>data := PointData [((1, (1, 1, 1)), Scalar 5)], data_stats := Some (5, 5)\<rparr>))
   \<and> process_gocad (test_rt []) default_config '''' ''a.vs'' (marker_file ''INF'')
      (new_vessel (test_rt []) (1, 1, 1, 1))
     = Ok True (two_points ((example_prop 1 (Some double_max))
         \<lparr>data := PointData [((0, (0, 0, 0)), Scalar double_max), ((1, (1, 1, 1)), Scalar 5)],
          data_stats := Some (5, double_max)\<rparr>))"
  by code_simp

text \<open>
  C1. The value of a \<^verbatim>\<open>PATOM\<close> line is stored under the vertex that follows the
  referenced one. \<^verbatim>\<open>make_vertex_dict\<close> numbers the vertices from 1 and the line indexes
  the list of vertices, which starts at 0, with this number. In \<open>patom_file\<close> the atom refers
  to the vertex 1 at (0, 0, 0), and the value 5 is stored under the second vertex, at
  (1, 1, 1). In \<open>patom_last_file\<close> the referenced vertex is the last one: the index is out
  of range, nothing is stored, and under the default configuration the handler of the
  exception ends the process.
\<close>

theorem patom_value_stored_at_next_vertex:
  "make_vertex_dict ((new_vessel (test_rt []) (1, 1, 1, 1))
        \<lparr>vrtx_arr := [VRTX 1 (0, 0, 0), VRTX 2 (1, 1, 1)]\<rparr>) 1 = Some 1
   \<and> process_gocad (test_rt []) default_config '''' ''a.vs'' patom_file
      (new_vessel (test_rt []) (1, 1, 1, 1))
     = Ok True ((example_vessel ((example_prop 1 None)
           \<lparr>data := PointData [((1, (1, 1, 1)), Scalar 5)], data_stats := Some (5, 5)\<rparr>))
         \<lparr>is_vs := True, np_filename := ''a'', vrtx_arr := [VRTX 1 (0, 0, 0), VRTX 2 (1, 1, 1)],
          atom_arr := [ATOM 3 1], minmax_calls := [(0, 0, 0), (1, 1, 1)]\<rparr>)
   \<and> process_gocad (test_rt []) default_config '''' ''a.vs'' patom_last_file
      (new_vessel (test_rt []) (1, 1, 1, 1))
     = SysExit ((example_vessel (example_prop 1 None))
         \<lparr>out := [Printed 280, Printed 281, Printed 282], is_vs := True, np_filename := ''a'',
          vrtx_arr := [VRTX 1 (0, 0, 0)], atom_arr := [ATOM 2 1], minmax_calls := [(0, 0, 0)]\<rparr>)"
  by code_simp







text \<open>
  C5. Take the property class under the key \<open>k\<close> of a voxel volume of \<open>nx\<close>, \<open>ny\<close>, \<open>nz\<close>
  cells, whose binary file exists. If the size of the file in bytes is not the element width
  \<^verbatim>\<open>data_sz\<close> times \<open>nx * ny * nz\<close>, reading the property ends the process with
  \<^verbatim>\<open>sys.exit(1)\<close>; at this point the data of the property is what it was before, no array
  has been made for it and no element has been stored. So \<^verbatim>\<open>__read_voxel_files\<close> ends the
  process when the properties before \<open>k\<close> have been read, and \<^verbatim>\<open>process_gocad\<close> does when
  its loop over the lines and its statistics have returned.
\<close>

theorem prop_file_size_mismatch_is_fatal:
  assumes "map_of (prop_dict st) k = Some prop_obj"
    and "file_bytes rt (vo_name rt (file_name prop_obj)) = Some bytes"
    and "vol_dims st = Some (nx, ny, nz)"
    and "int (length bytes) \<noteq> data_sz prop_obj * nx * ny * nz"
  shows "read_prop_file rt cfg k st = SysExit (size_exit rt cfg k prop_obj st)
       \<and> map_of (prop_dict (size_exit rt cfg k prop_obj st)) k
           = Some (prop_obj\<lparr>file_name := vo_name rt (file_name prop_obj)\<rparr>)
       \<and> data (prop_obj\<lparr>file_name := vo_name rt (file_name prop_obj)\<rparr>) = data prop_obj
       \<and> (is_vo vs \<longrightarrow> map fst (prop_dict vs) = before @ k # after \<longrightarrow>
            prop_files_loop rt cfg before vs = Ok () st \<longrightarrow>
              read_voxel_files rt cfg vs = SysExit (size_exit rt cfg k prop_obj st)
            \<and> (path_splitext rt filename_str = (fileName, fileExt) \<longrightarrow>
                run_lines rt cfg src_dir fileExt file_lines init_locals
                  ((log_debug cfg 332 start)\<lparr>np_filename := path_basename rt fileName\<rparr>)
                  = Ok (Continue, lc) parsed \<longrightarrow>
                stats_loop rt (map fst (local_props parsed)) (log_debug cfg 756 parsed) = Ok () counted \<longrightarrow>
                vs = log_debug cfg 767 counted \<longrightarrow>
                  process_gocad rt cfg src_dir filename_str file_lines start
                    = SysExit (size_exit rt cfg k prop_obj st)))"
proof -
  have ex: "read_prop_file rt cfg k st = SysExit (size_exit rt cfg k prop_obj st)"
    using assms by (simp add: read_prop_file_def Let_def size_exit_def)
  have lg: "\<And>n s. prop_dict (log_error cfg n s) = prop_dict (s :: 'a vessel)"
    by (simp add: log_error_def emit_def)
  show ?thesis
  proof (intro conjI impI)
    show "read_prop_file rt cfg k st = SysExit (size_exit rt cfg k prop_obj st)" by (rule ex)
  next
    show "map_of (prop_dict (size_exit rt cfg k prop_obj st)) k
           = Some (prop_obj\<lparr>file_name := vo_name rt (file_name prop_obj)\<rparr>)"
      by (simp add: size_exit_def lg update_Some_unfold)
  next
    show "data (prop_obj\<lparr>file_name := vo_name rt (file_name prop_obj)\<rparr>) = data prop_obj" by simp
  next
    assume "is_vo vs" and "map fst (prop_dict vs) = before @ k # after"
      and "prop_files_loop rt cfg before vs = Ok () st"
    then show "read_voxel_files rt cfg vs = SysExit (size_exit rt cfg k prop_obj st)"
      using ex by (rule read_voxel_files_stops)
  next
    assume a: "is_vo vs" "map fst (prop_dict vs) = before @ k # after"
      "prop_files_loop rt cfg before vs = Ok () st"
      and p: "path_splitext rt filename_str = (fileName, fileExt)"
      and r: "run_lines rt cfg src_dir fileExt file_lines init_locals
                  ((log_debug cfg 332 start)\<lparr>np_filename := path_basename rt fileName\<rparr>)
                  = Ok (Continue, lc) parsed"
      and s: "stats_loop rt (map fst (local_props parsed)) (log_debug cfg 756 parsed) = Ok () counted"
      and e: "vs = log_debug cfg 767 counted"
    from read_voxel_files_stops[OF a ex] e process_gocad_voxel_files[OF p r s]
    show "process_gocad rt cfg src_dir filename_str file_lines start
        = SysExit (size_exit rt cfg k prop_obj st)"
      by simp
  qed
qed

theorem prop_file_size_mismatch_is_fatal_witness:
  "process_gocad (test_rt [(''f'', [1, 2, 3]), (''g'', [8, 0])]) default_config '''' ''a.vo'' vo_lines
      (new_vessel (test_rt []) (1, 1, 1, 1))
     = SysExit (voxet\<lparr>out := [LogError 858]\<rparr>)
   \<and> map_of (prop_dict (voxet\<lparr>out := [LogError 858]\<rparr>)) ''1'' = Some vo_prop
   \<and> data vo_prop = PointData []"
proof -
  let ?rt = "test_rt [(''f'', [1, 2, 3]), (''g'', [8, 0])] :: rat runtime"
  have m: "map_of (prop_dict voxet) ''1'' = Some vo_prop" by (simp add: voxet_def)
  have fb: "file_bytes ?rt (vo_name ?rt (file_name vo_prop)) = Some [1, 2, 3]" by code_simp
  have vd: "vol_dims voxet = Some (2, 1, 1)" by (simp add: voxet_def)
  have ne: "int (length [1 :: nat, 2, 3]) \<noteq> data_sz vo_prop * 2 * 1 * 1" by (simp add: vo_prop_def)
  have vo: "is_vo voxet" by (simp add: voxet_def)
  have ks: "map fst (prop_dict voxet) = [] @ ''1'' # []" by (simp add: voxet_def)
  have pl: "prop_files_loop ?rt default_config [] voxet = Ok () voxet" by simp
  have sp: "path_splitext ?rt ''a.vo'' = (''a'', ''.vo'')" by code_simp
  have run: "run_lines ?rt default_config '''' ''.vo'' vo_lines init_locals
      ((log_debug default_config 332 (new_vessel (test_rt []) (1, 1, 1, 1)))\<lparr>np_filename := path_basename ?rt ''a''\<rparr>)
      = Ok (Continue, init_locals\<lparr>firstLine := False\<rparr>) voxet"
    by code_simp
  have lg: "\<And>n s. log_debug default_config n s = (s :: rat vessel)"
    by (simp add: log_debug_def default_config_def)
  have st: "stats_loop ?rt (map fst (local_props voxet)) (log_debug default_config 756 voxet) = Ok () voxet"
    by (simp add: lg voxet_def new_vessel_def)
  have e: "voxet = log_debug default_config 767 voxet" by (simp add: lg)
  have sx: "size_exit ?rt default_config ''1'' vo_prop voxet = voxet\<lparr>out := [LogError 858]\<rparr>"
    by code_simp
  have vn: "vo_prop\<lparr>file_name := vo_name ?rt (file_name vo_prop)\<rparr> = vo_prop" by code_simp
  note T = prop_file_size_mismatch_is_fatal[where rt = ?rt and cfg = default_config and st = voxet
      and vs = voxet and before = "[]" and after = "[]" and filename_str = "''a.vo''" and fileName = "''a''"
      and fileExt = "''.vo''" and src_dir = "''''" and file_lines = vo_lines
      and start = "new_vessel (test_rt []) (1, 1, 1, 1)" and lc = "init_locals\<lparr>firstLine := False\<rparr>"
      and parsed = voxet and counted = voxet, OF m fb vd ne]
  from T vo ks pl sp run st e
  have "process_gocad ?rt default_config '''' ''a.vo'' vo_lines (new_vessel (test_rt []) (1, 1, 1, 1))
     = SysExit (size_exit ?rt default_config ''1'' vo_prop voxet)"
    by blast
  then have a: "process_gocad ?rt default_config '''' ''a.vo'' vo_lines (new_vessel (test_rt []) (1, 1, 1, 1))
     = SysExit (voxet\<lparr>out := [LogError 858]\<rparr>)"
    unfolding sx .
  from T have "map_of (prop_dict (size_exit ?rt default_config ''1'' vo_prop voxet)) ''1''
      = Some (vo_prop\<lparr>file_name := vo_name ?rt (file_name vo_prop)\<rparr>)"
    by blast
  then have b: "map_of (prop_dict (voxet\<lparr>out := [LogError 858]\<rparr>)) ''1'' = Some vo_prop"
    unfolding sx vn .
  from T have "data (vo_prop\<lparr>file_name := vo_name ?rt (file_name vo_prop)\<rparr>) = data vo_prop"
    by blast
  then have c: "data vo_prop = PointData []"
    by (simp add: vo_prop_def new_PROPS_def)
  from a b c show ?thesis by simp
qed

end
